theory Spec2Isabelle
  imports Complex_Main
begin

section \<open>JavaScript values\<close>

text \<open>
  A nullable TEXT column (and an optional string property of a row object) is a
  \<open>string option\<close>: \<open>None\<close> is NULL.  JavaScript's truthiness of such a value,
  as used by \<^verbatim>\<open>a && b\<close> and \<^verbatim>\<open>!a\<close>: NULL and the empty string are falsy.
\<close>

fun truthy :: "string option \<Rightarrow> bool" where
  "truthy None = False"
| "truthy (Some s) = (s \<noteq> [])"

text \<open>
  A property of a JSON request body: absent (\<^verbatim>\<open>undefined\<close>), \<^verbatim>\<open>null\<close>, or a string.
  \<^verbatim>\<open>updateSession\<close> drops the keys whose value is \<^verbatim>\<open>undefined\<close> and writes the
  others, \<^verbatim>\<open>null\<close> included.
\<close>

datatype jsfield = Undefined | Null | Text string

fun field_truthy :: "jsfield \<Rightarrow> bool" where
  "field_truthy Undefined = False"
| "field_truthy Null = False"
| "field_truthy (Text s) = (s \<noteq> [])"

text \<open>The column after \<^verbatim>\<open>updateSession(id, { col: v })\<close>, given its old content.\<close>

fun write_field :: "jsfield \<Rightarrow> string option \<Rightarrow> string option" where
  "write_field Undefined old = old"
| "write_field Null old = None"
| "write_field (Text s) old = Some s"

section \<open>JavaScript numbers\<close>

text \<open>
  A finite JavaScript number is an IEEE-754 binary64 value, here the rational it
  denotes.  \<open>to_double\<close> rounds a rational to the binary64 grid (53 significant bits,
  least exponent \<open>-1074\<close>, round to nearest, ties to even); a result of magnitude
  \<open>2 ^ 1024\<close> or more stands for an infinity.
\<close>

function log2_up :: "rat \<Rightarrow> nat" where
  "log2_up x = (if x < 2 then 0 else Suc (log2_up (x / 2)))"
  by pat_completeness auto
termination
proof (relation "measure (\<lambda>x. nat \<lfloor>x\<rfloor>)")
  show "wf (measure (\<lambda>x::rat. nat \<lfloor>x\<rfloor>))" by simp
next
  fix x :: rat
  assume "\<not> x < 2"
  then have "x / 2 \<le> x - 1" by simp
  then have "\<lfloor>x / 2\<rfloor> \<le> \<lfloor>x - 1\<rfloor>" by (rule floor_mono)
  moreover have "\<lfloor>x - 1\<rfloor> = \<lfloor>x\<rfloor> - 1" by simp
  moreover have "1 \<le> \<lfloor>x\<rfloor>" using \<open>\<not> x < 2\<close> by (simp add: le_floor_iff)
  ultimately show "(x / 2, x) \<in> measure (\<lambda>x. nat \<lfloor>x\<rfloor>)" by simp
qed

function log2_down :: "rat \<Rightarrow> nat" where
  "log2_down x = (if x \<le> 0 \<or> 1 \<le> x then 0 else Suc (log2_down (2 * x)))"
  by pat_completeness auto
termination
proof (relation "measure (\<lambda>x. nat \<lceil>1 / x\<rceil>)")
  show "wf (measure (\<lambda>x::rat. nat \<lceil>1 / x\<rceil>))" by simp
next
  fix x :: rat
  assume "\<not> (x \<le> 0 \<or> 1 \<le> x)"
  then have x: "0 < x" "x < 1" by simp_all
  define y where "y = 1 / x"
  have y: "1 < y" using x by (simp add: y_def)
  then have c: "2 \<le> \<lceil>y\<rceil>" by (simp add: le_ceiling_iff)
  have "y / 2 \<le> of_int \<lceil>y\<rceil> / 2" using le_of_int_ceiling [of y] by simp
  also have "\<dots> \<le> of_int (\<lceil>y\<rceil> - 1)" using c by simp
  finally have "y / 2 \<le> of_int (\<lceil>y\<rceil> - 1)" .
  then have "\<lceil>y / 2\<rceil> \<le> \<lceil>y\<rceil> - 1" by (rule ceiling_le)
  then have "nat \<lceil>y / 2\<rceil> < nat \<lceil>y\<rceil>" using c by linarith
  moreover have "1 / (2 * x) = y / 2" by (simp add: y_def)
  ultimately have "nat \<lceil>1 / (2 * x)\<rceil> < nat \<lceil>1 / x\<rceil>"
    by (simp only: y_def)
  then show "(2 * x, x) \<in> measure (\<lambda>x. nat \<lceil>1 / x\<rceil>)" by simp
qed

declare log2_up.simps [simp del]
declare log2_down.simps [simp del]

text \<open>For \<open>x > 0\<close>, the exponent \<open>e\<close> with \<open>2 ^ e \<le> x < 2 ^ (e + 1)\<close>.\<close>

definition ilog2 :: "rat \<Rightarrow> int" where
  "ilog2 x = (if 1 \<le> x then int (log2_up x) else - int (log2_down x))"

definition round_half_even :: "rat \<Rightarrow> int" where
  "round_half_even y =
     (let f = \<lfloor>y\<rfloor>; d = y - of_int f
      in if d < 1 / 2 then f else if 1 / 2 < d then f + 1
         else if even f then f else f + 1)"

definition to_double :: "rat \<Rightarrow> rat" where
  "to_double x =
     (if x = 0 then 0
      else let q = max (ilog2 \<bar>x\<bar> - 52) (- 1074)
           in sgn x * of_int (round_half_even (\<bar>x\<bar> / 2 powi q)) * 2 powi q)"

definition is_finite :: "rat \<Rightarrow> bool" where
  "is_finite r = (\<bar>r\<bar> < 2 ^ 1024)"

text \<open>The operators \<^verbatim>\<open>*\<close>, \<^verbatim>\<open>-\<close> and \<^verbatim>\<open>/\<close> on finite numbers.\<close>

definition js_mul :: "rat \<Rightarrow> rat \<Rightarrow> rat" where
  "js_mul x y = to_double (x * y)"

definition js_sub :: "rat \<Rightarrow> rat \<Rightarrow> rat" where
  "js_sub x y = to_double (x - y)"

definition js_div :: "rat \<Rightarrow> rat \<Rightarrow> rat" where
  "js_div x y = to_double (x / y)"

text \<open>
  \<^verbatim>\<open>BigInt(Math.floor(x * 1e12))\<close>: XMR to atomic units.  \<^verbatim>\<open>BigInt\<close> throws a
  RangeError on an infinity.
\<close>

definition to_atomic :: "rat \<Rightarrow> string + int" where
  "to_atomic x =
     (let p = js_mul x (10 ^ 12)
      in if is_finite p then Inr \<lfloor>p\<rfloor> else Inl ''RangeError'')"

section \<open>Persistent state\<close>

text \<open>
  The rows of the tables \<^verbatim>\<open>multisig_sessions\<close>, \<^verbatim>\<open>trades\<close> and \<^verbatim>\<open>platform_fees\<close>
  (db.ts).  A table with a primary key is a map from the key to the other columns.
  The columns \<^verbatim>\<open>created_at\<close> and \<^verbatim>\<open>updated_at\<close>, the session's \<^verbatim>\<open>user_id\<close> and
  the \<^verbatim>\<open>users\<close> table are left out: no operation below reads them, and a row is
  written only by \<^verbatim>\<open>updateSession\<close>, \<^verbatim>\<open>updateTrade\<close> and \<^verbatim>\<open>recordPlatformFee\<close>.
\<close>

datatype session_status = Preparing | Making | Exchanging | Ready

fun status_name :: "session_status \<Rightarrow> string" where
  "status_name Preparing = ''preparing''"
| "status_name Making = ''making''"
| "status_name Exchanging = ''exchanging''"
| "status_name Ready = ''ready''"

record session =
  status :: session_status
  threshold :: int
  total_participants :: int
  service_wallet_path :: "string option"
  service_address :: "string option"
  service_prepared_hex :: "string option"
  service_made_hex :: "string option"
  user_a_id :: "string option"
  user_a_prepared_hex :: "string option"
  user_a_made_hex :: "string option"
  user_b_id :: "string option"
  user_b_prepared_hex :: "string option"
  user_b_made_hex :: "string option"
  exchange_round :: int
  service_exchange_hexes :: "string option"
  user_a_exchange_hexes :: "string option"
  user_b_exchange_hexes :: "string option"
  service_exchange_hexes_prev :: "string option"
  user_a_exchange_hexes_prev :: "string option"
  user_b_exchange_hexes_prev :: "string option"
  multisig_address :: "string option"
  creation_height :: "int option"

datatype trade_status =
  Pending | Funded | Payment_sent | Payment_confirmed | Releasing | Completed
  | Disputed | Cancelled

fun trade_status_name :: "trade_status \<Rightarrow> string" where
  "trade_status_name Pending = ''pending''"
| "trade_status_name Funded = ''funded''"
| "trade_status_name Payment_sent = ''payment_sent''"
| "trade_status_name Payment_confirmed = ''payment_confirmed''"
| "trade_status_name Releasing = ''releasing''"
| "trade_status_name Completed = ''completed''"
| "trade_status_name Disputed = ''disputed''"
| "trade_status_name Cancelled = ''cancelled''"

text \<open>The trade's column \<^verbatim>\<open>status\<close> is the field \<open>trade_status\<close>.\<close>

record trade =
  offer_id :: string
  buyer_id :: string
  seller_id :: string
  amount :: rat
  xmr_amount :: rat
  trade_status :: trade_status
  multisig_session_id :: "string option"

record platform_fee =
  fee_id :: string
  fee_trade_id :: string
  amount_xmr :: rat
  fee_percentage :: rat

section \<open>The wallet capability\<close>

text \<open>
  The calls the server makes on monero-ts (and, for the wallet files, on \<^verbatim>\<open>fs\<close>).
  After \<open>OpenWalletFull\<close> or \<open>CreateWalletFull\<close> the calls go to the wallet just
  opened.  \<open>Sync\<close> is also the sync raced against a timer: the timer winning is a
  thrown error.
\<close>

datatype wallet_call =
    OpenWalletFull "string option"
  | CreateWalletFull "string option" string "int option"
  | Unlink string
  | Close
  | Save
  | Sync
  | GetHeight
  | GetDaemonHeight
  | SetRestoreHeight int
  | RescanBlockchain
  | GetBalance
  | GetUnlockedBalance
  | IsMultisig
  | GetSeed
  | GetAddress
  | MakeMultisig "string option list" int
  | ExchangeMultisigKeys "string option list"
  | CreateTx string int
  | ExportMultisigHex
  | SignMultisigTxHex string
  | SubmitMultisigTxHex string

text \<open>
  The wallet is outside the program: its answers are a parameter.  An answer may depend
  on every call made so far; \<open>Inl m\<close> (for \<open>unit_reply\<close>, \<open>Some m\<close>) is a thrown
  \<^verbatim>\<open>Error(m)\<close>.  \<open>hex_reply\<close> answers \<^verbatim>\<open>exchangeMultisigKeys(..).getMultisigHex()\<close>,
  which may be \<^verbatim>\<open>undefined\<close>.
\<close>

record wallet =
  unit_reply :: "wallet_call list \<Rightarrow> wallet_call \<Rightarrow> string option"
  str_reply :: "wallet_call list \<Rightarrow> wallet_call \<Rightarrow> string + string"
  hex_reply :: "wallet_call list \<Rightarrow> wallet_call \<Rightarrow> string + string option"
  num_reply :: "wallet_call list \<Rightarrow> wallet_call \<Rightarrow> string + int"
  list_reply :: "wallet_call list \<Rightarrow> wallet_call \<Rightarrow> string + string list"

record world =
  sessions :: "string \<rightharpoonup> session"
  trades :: "string \<rightharpoonup> trade"
  platform_fees :: "platform_fee list"
  wallet_log :: "wallet_call list"

section \<open>Sequencing, exceptions\<close>

text \<open>
  A block of a request handler: it runs on the state and either returns a value or
  throws an error message; what it wrote before throwing stays written.
\<close>

type_synonym 'a prog = "world \<Rightarrow> (string + 'a) \<times> world"

definition ret :: "'a \<Rightarrow> 'a prog" where
  "ret a = (\<lambda>w. (Inr a, w))"

definition throw :: "string \<Rightarrow> 'a prog" where
  "throw m = (\<lambda>w. (Inl m, w))"

definition and_then :: "'a prog \<Rightarrow> ('a \<Rightarrow> 'b prog) \<Rightarrow> 'b prog" where
  "and_then p f = (\<lambda>w. case p w of (Inl m, w') \<Rightarrow> (Inl m, w') | (Inr a, w') \<Rightarrow> f a w')"

definition try_catch :: "'a prog \<Rightarrow> (string \<Rightarrow> 'a prog) \<Rightarrow> 'a prog" where
  "try_catch p h = (\<lambda>w. case p w of (Inl m, w') \<Rightarrow> h m w' | (Inr a, w') \<Rightarrow> (Inr a, w'))"

definition lift_result :: "string + 'a \<Rightarrow> 'a prog" where
  "lift_result r = (\<lambda>w. (r, w))"

definition ask_unit :: "wallet \<Rightarrow> wallet_call \<Rightarrow> unit prog" where
  "ask_unit W c = (\<lambda>w.
     ((case unit_reply W (wallet_log w) c of Some m \<Rightarrow> Inl m | None \<Rightarrow> Inr ()),
      w\<lparr>wallet_log := wallet_log w @ [c]\<rparr>))"

definition ask_str :: "wallet \<Rightarrow> wallet_call \<Rightarrow> string prog" where
  "ask_str W c = (\<lambda>w. (str_reply W (wallet_log w) c, w\<lparr>wallet_log := wallet_log w @ [c]\<rparr>))"

definition ask_hex :: "wallet \<Rightarrow> wallet_call \<Rightarrow> string option prog" where
  "ask_hex W c = (\<lambda>w. (hex_reply W (wallet_log w) c, w\<lparr>wallet_log := wallet_log w @ [c]\<rparr>))"

definition ask_num :: "wallet \<Rightarrow> wallet_call \<Rightarrow> int prog" where
  "ask_num W c = (\<lambda>w. (num_reply W (wallet_log w) c, w\<lparr>wallet_log := wallet_log w @ [c]\<rparr>))"

definition ask_list :: "wallet \<Rightarrow> wallet_call \<Rightarrow> string list prog" where
  "ask_list W c = (\<lambda>w. (list_reply W (wallet_log w) c, w\<lparr>wallet_log := wallet_log w @ [c]\<rparr>))"

text \<open>db.ts: \<^verbatim>\<open>getSession\<close>, \<^verbatim>\<open>updateSession\<close>, \<^verbatim>\<open>getTradeById\<close>, \<^verbatim>\<open>updateTrade\<close>.
  An UPDATE of a missing row changes nothing.\<close>

definition getSession :: "string \<Rightarrow> session option prog" where
  "getSession sid = (\<lambda>w. (Inr (sessions w sid), w))"

definition updateSession :: "string \<Rightarrow> (session \<Rightarrow> session) \<Rightarrow> unit prog" where
  "updateSession sid f = (\<lambda>w.
     (Inr (), case sessions w sid of None \<Rightarrow> w
              | Some s \<Rightarrow> w\<lparr>sessions := (sessions w)(sid \<mapsto> f s)\<rparr>))"

definition getTradeById :: "string \<Rightarrow> trade option prog" where
  "getTradeById tid = (\<lambda>w. (Inr (trades w tid), w))"

definition updateTrade :: "string \<Rightarrow> (trade \<Rightarrow> trade) \<Rightarrow> unit prog" where
  "updateTrade tid f = (\<lambda>w.
     (Inr (), case trades w tid of None \<Rightarrow> w
              | Some t \<Rightarrow> w\<lparr>trades := (trades w)(tid \<mapsto> f t)\<rparr>))"

text \<open>
  A route's answer: an error status with its message, or the 200 answer.  A route's
  outer \<^verbatim>\<open>catch\<close> turns a thrown error into status 500.
\<close>

datatype 'a reply = Failure nat string | Success 'a

definition respond :: "'a reply prog \<Rightarrow> world \<Rightarrow> 'a reply \<times> world" where
  "respond p w = (case p w of (Inl m, w') \<Rightarrow> (Failure 500 m, w') | (Inr r, w') \<Rightarrow> (r, w'))"

section \<open>Deposit monitor (services/depositMonitor.ts)\<close>

record check_result =
  hasDeposit :: bool
  isUnlocked :: bool
  balance :: int

definition no_deposit :: check_result where
  "no_deposit = \<lparr>hasDeposit = False, isUnlocked = False, balance = 0\<rparr>"

text \<open>\<^verbatim>\<open>session.creation_height && session.creation_height > 0\<close>\<close>

fun positive_height :: "int option \<Rightarrow> bool" where
  "positive_height None = False"
| "positive_height (Some h) = (h \<noteq> 0 \<and> 0 < h)"

text \<open>The statements of \<^verbatim>\<open>performWalletCheck\<close>'s \<^verbatim>\<open>try\<close> block after the wallet is open.\<close>

definition wallet_check_body :: "wallet \<Rightarrow> session \<Rightarrow> rat \<Rightarrow> check_result prog" where
  "wallet_check_body W session expectedAmount =
     and_then (ask_num W GetHeight) (\<lambda>syncHeight0.
     and_then (ask_num W GetDaemonHeight) (\<lambda>daemonHeight.
     and_then
       (if syncHeight0 < 100 \<and> positive_height (creation_height session) then
          and_then (ask_unit W (SetRestoreHeight (the (creation_height session)))) (\<lambda>_.
          and_then (ask_unit W RescanBlockchain) (\<lambda>_.
          and_then (ask_unit W Sync) (\<lambda>_.
          ask_num W GetHeight)))
        else ret syncHeight0) (\<lambda>syncHeight.
     and_then (if daemonHeight \<le> syncHeight then ret () else ask_unit W Sync) (\<lambda>_.
     and_then (ask_num W GetBalance) (\<lambda>balance.
     and_then (ask_num W GetUnlockedBalance) (\<lambda>unlockedBalance.
     and_then (ask_unit W Close) (\<lambda>_.
     and_then (lift_result (to_atomic expectedAmount)) (\<lambda>expectedAtomic.
     ret \<lparr>hasDeposit = (expectedAtomic \<le> balance),
          isUnlocked = (expectedAtomic \<le> unlockedBalance),
          balance = balance\<rparr>))))))))"

definition performWalletCheck :: "wallet \<Rightarrow> string \<Rightarrow> rat \<Rightarrow> check_result prog" where
  "performWalletCheck W sessionId expectedAmount =
     and_then (getSession sessionId) (\<lambda>session.
       case session of
         None \<Rightarrow> ret no_deposit
       | Some s \<Rightarrow>
           if status s \<noteq> Ready then ret no_deposit
           else
             try_catch
               (and_then (ask_unit W (OpenWalletFull (service_wallet_path s))) (\<lambda>_.
                  try_catch (wallet_check_body W s expectedAmount)
                    (\<lambda>error.
                       and_then (try_catch (ask_unit W Close) (\<lambda>closeError. ret ())) (\<lambda>_.
                       ret no_deposit))))
               (\<lambda>error. ret no_deposit))"

text \<open>
  \<^verbatim>\<open>checkWalletDeposits\<close> called while no other call for the session is in flight:
  the lock map has no entry, the check runs, and the entry it sets is deleted again.
  (The calls in flight together are the subject of the section on the lock below.)
\<close>

definition checkWalletDeposits :: "wallet \<Rightarrow> string \<Rightarrow> rat \<Rightarrow> check_result prog" where
  "checkWalletDeposits W sessionId expectedAmount = performWalletCheck W sessionId expectedAmount"

text \<open>
  The answer of \<^verbatim>\<open>checkTradeDeposit\<close>.  \<open>balance_xmr\<close> is the number
  \<^verbatim>\<open>Number(balance) / 1e12\<close> that the answer prints with eight decimals (\<^verbatim>\<open>"0"\<close> in
  the failing answers).
\<close>

record deposit_answer =
  success :: bool
  has_deposit :: bool
  is_unlocked :: bool
  balance_xmr :: rat

definition deposit_failed :: deposit_answer where
  "deposit_failed = \<lparr>success = False, has_deposit = False, is_unlocked = False, balance_xmr = 0\<rparr>"

definition checkTradeDeposit :: "wallet \<Rightarrow> string \<Rightarrow> world \<Rightarrow> deposit_answer \<times> world" where
  "checkTradeDeposit W tradeId w =
     (case
        (and_then (getTradeById tradeId) (\<lambda>trade.
           case trade of
             None \<Rightarrow> ret deposit_failed
           | Some t \<Rightarrow>
               if \<not> truthy (multisig_session_id t) then ret deposit_failed
               else
                 and_then (checkWalletDeposits W (the (multisig_session_id t)) (xmr_amount t))
                   (\<lambda>r.
                 and_then
                   (if isUnlocked r \<and> trade_status t = Pending
                    then updateTrade tradeId (\<lambda>t. t\<lparr>trade_status := Funded\<rparr>)
                    else ret ()) (\<lambda>_.
                 ret \<lparr>success = True, has_deposit = hasDeposit r, is_unlocked = isUnlocked r,
                      balance_xmr = js_div (to_double (of_int (balance r))) (10 ^ 12)\<rparr>)))) w
      of (Inl error, w') \<Rightarrow> (deposit_failed, w')
       | (Inr a, w') \<Rightarrow> (a, w'))"

text \<open>
  \<^verbatim>\<open>checkTradeDeposit\<close> while other requests are served.  The function reads the trade,
  awaits \<^verbatim>\<open>checkWalletDeposits\<close>, and then tests the status of the row it has read;
  the requests served while it waits may write to the table \<^verbatim>\<open>trades\<close>.  \<open>others\<close>
  is what they have done to the table by the time the function goes on.
\<close>

definition meanwhile :: "((string \<rightharpoonup> trade) \<Rightarrow> (string \<rightharpoonup> trade)) \<Rightarrow> unit prog" where
  "meanwhile others = (\<lambda>w. (Inr (), w\<lparr>trades := others (trades w)\<rparr>))"

definition checkTradeDeposit_amid ::
  "wallet \<Rightarrow> ((string \<rightharpoonup> trade) \<Rightarrow> (string \<rightharpoonup> trade)) \<Rightarrow> string \<Rightarrow> world
     \<Rightarrow> deposit_answer \<times> world" where
  "checkTradeDeposit_amid W others tradeId w =
     (case
        (and_then (getTradeById tradeId) (\<lambda>trade.
           case trade of
             None \<Rightarrow> ret deposit_failed
           | Some t \<Rightarrow>
               if \<not> truthy (multisig_session_id t) then ret deposit_failed
               else
                 and_then (checkWalletDeposits W (the (multisig_session_id t)) (xmr_amount t))
                   (\<lambda>r.
                 and_then (meanwhile others) (\<lambda>_.
                 and_then
                   (if isUnlocked r \<and> trade_status t = Pending
                    then updateTrade tradeId (\<lambda>t. t\<lparr>trade_status := Funded\<rparr>)
                    else ret ()) (\<lambda>_.
                 ret \<lparr>success = True, has_deposit = hasDeposit r, is_unlocked = isUnlocked r,
                      balance_xmr = js_div (to_double (of_int (balance r))) (10 ^ 12)\<rparr>))))) w
      of (Inl error, w') \<Rightarrow> (deposit_failed, w')
       | (Inr a, w') \<Rightarrow> (a, w'))"

section \<open>Multisig session coordinator (routes/multisig.ts)\<close>

text \<open>
  The row \<^verbatim>\<open>initializeMultisigSession\<close> leaves behind: \<^verbatim>\<open>createSession(id, userId, 2, 3)\<close>
  followed by \<^verbatim>\<open>updateSession\<close> with the service wallet's path, address, prepared hex
  and the creation height.
\<close>

definition created_session :: "string \<Rightarrow> string \<Rightarrow> string \<Rightarrow> int \<Rightarrow> session" where
  "created_session serviceWalletPath serviceAddress servicePreparedHex creationHeight =
     \<lparr>status = Preparing, threshold = 2, total_participants = 3,
      service_wallet_path = Some serviceWalletPath,
      service_address = Some serviceAddress,
      service_prepared_hex = Some servicePreparedHex,
      service_made_hex = None,
      user_a_id = None, user_a_prepared_hex = None, user_a_made_hex = None,
      user_b_id = None, user_b_prepared_hex = None, user_b_made_hex = None,
      exchange_round = 0,
      service_exchange_hexes = None, user_a_exchange_hexes = None,
      user_b_exchange_hexes = None,
      service_exchange_hexes_prev = None, user_a_exchange_hexes_prev = None,
      user_b_exchange_hexes_prev = None,
      multisig_address = None, creation_height = Some creationHeight\<rparr>"

text \<open>
  \<^verbatim>\<open>getSession(sessionId)!\<close> followed by a property access: on a missing row the access
  throws a TypeError.
\<close>

definition getSession_strict :: "string \<Rightarrow> session prog" where
  "getSession_strict sid =
     and_then (getSession sid) (\<lambda>r. case r of None \<Rightarrow> throw ''TypeError'' | Some s \<Rightarrow> ret s)"

subsection \<open>POST /multisig/:sessionId/prepare\<close>

definition allPrepared :: "session \<Rightarrow> bool" where
  "allPrepared s =
     (truthy (service_prepared_hex s) \<and> truthy (user_a_prepared_hex s)
      \<and> truthy (user_b_prepared_hex s))"

definition prepare_check :: "string \<Rightarrow> bool reply prog" where
  "prepare_check sessionId =
     and_then (getSession_strict sessionId) (\<lambda>updatedSession.
     and_then
       (if allPrepared updatedSession
        then updateSession sessionId (\<lambda>s. s\<lparr>status := Making\<rparr>)
        else ret ()) (\<lambda>_.
     ret (Success (allPrepared updatedSession))))"

text \<open>
  \<^verbatim>\<open>updateSession(sessionId, { user_a_prepared_hex: preparedHex, user_a_id: req.userId })\<close>
  and the same for user B.  \<^verbatim>\<open>updateSession\<close> drops the keys whose value is
  \<^verbatim>\<open>undefined\<close> and prepares \<^verbatim>\<open>UPDATE multisig_sessions SET key = ?, ...\<close> with the keys
  that are left.  The table \<^verbatim>\<open>multisig_sessions\<close> has no column \<^verbatim>\<open>user_a_id\<close> or
  \<^verbatim>\<open>user_b_id\<close> (its \<^verbatim>\<open>CREATE TABLE\<close> in db.ts names none, and no \<^verbatim>\<open>ALTER TABLE\<close> adds
  one): with a user id the database refuses the statement, \<^verbatim>\<open>db.prepare\<close> throws and
  nothing is written.  \<open>sqlError\<close> is the message of the database's error.
\<close>

definition store_prepared ::
  "string \<Rightarrow> string \<Rightarrow> (session \<Rightarrow> session) \<Rightarrow> string option \<Rightarrow> unit prog" where
  "store_prepared sqlError sessionId updates userId =
     (case userId of
        None \<Rightarrow> updateSession sessionId updates
      | Some u \<Rightarrow> throw sqlError)"

text \<open>\<open>userId\<close> is \<^verbatim>\<open>req.userId\<close>, which \<^verbatim>\<open>authenticateToken\<close> sets to the caller's id.\<close>

definition prepare_route ::
  "string \<Rightarrow> string \<Rightarrow> string \<Rightarrow> jsfield \<Rightarrow> string option \<Rightarrow> world
     \<Rightarrow> bool reply \<times> world" where
  "prepare_route sqlError sessionId participantId preparedHex userId =
     respond
       (and_then (getSession sessionId) (\<lambda>session.
          case session of
            None \<Rightarrow> ret (Failure 404 ''Session not found'')
          | Some session \<Rightarrow>
              if status session \<noteq> Preparing then
                ret (Failure 400 (''Session is in '' @ status_name (status session)
                                  @ '' state, cannot accept prepared hex''))
              else if participantId = ''user_a'' then
                and_then
                  (store_prepared sqlError sessionId (\<lambda>s.
                     s\<lparr>user_a_prepared_hex := write_field preparedHex (user_a_prepared_hex s)\<rparr>)
                     userId)
                  (\<lambda>_. prepare_check sessionId)
              else if participantId = ''user_b'' then
                and_then
                  (store_prepared sqlError sessionId (\<lambda>s.
                     s\<lparr>user_b_prepared_hex := write_field preparedHex (user_b_prepared_hex s)\<rparr>)
                     userId)
                  (\<lambda>_. prepare_check sessionId)
              else ret (Failure 400 ''Invalid participantId'')))"

subsection \<open>POST /multisig/:sessionId/make\<close>

record make_answer =
  madeHex :: "string option"
  allMade :: bool

definition all_made :: "session \<Rightarrow> bool" where
  "all_made s =
     (truthy (service_made_hex s) \<and> truthy (user_a_made_hex s) \<and> truthy (user_b_made_hex s))"

text \<open>The automatic make of the service wallet; its errors are logged and dropped.\<close>

definition auto_make :: "wallet \<Rightarrow> string \<Rightarrow> session \<Rightarrow> unit prog" where
  "auto_make W sessionId updatedSession =
     try_catch
       (and_then (ask_unit W (OpenWalletFull (service_wallet_path updatedSession))) (\<lambda>_.
        and_then
          (ask_str W (MakeMultisig
             [user_a_prepared_hex updatedSession, user_b_prepared_hex updatedSession]
             (threshold updatedSession))) (\<lambda>serviceMadeHex.
        and_then (ask_unit W Save) (\<lambda>_.
        and_then (ask_unit W Close) (\<lambda>_.
        updateSession sessionId (\<lambda>s. s\<lparr>service_made_hex := Some serviceMadeHex\<rparr>))))))
       (\<lambda>error. ret ())"

definition make_check :: "wallet \<Rightarrow> string \<Rightarrow> string \<Rightarrow> string option \<Rightarrow> make_answer reply prog" where
  "make_check W sessionId participantId made =
     and_then (getSession_strict sessionId) (\<lambda>updatedSession.
     and_then
       (if truthy (user_a_made_hex updatedSession) \<and> truthy (user_b_made_hex updatedSession)
           \<and> \<not> truthy (service_made_hex updatedSession) \<and> participantId \<noteq> ''service''
        then auto_make W sessionId updatedSession else ret ()) (\<lambda>_.
     and_then (getSession_strict sessionId) (\<lambda>finalSession.
     and_then
       (if all_made finalSession
        then updateSession sessionId (\<lambda>s. s\<lparr>status := Exchanging\<rparr>)
        else ret ()) (\<lambda>_.
     ret (Success \<lparr>madeHex = (if participantId = ''service'' then made else None),
                   allMade = all_made finalSession\<rparr>)))))"

definition make_route ::
  "wallet \<Rightarrow> string \<Rightarrow> string \<Rightarrow> jsfield \<Rightarrow> world \<Rightarrow> make_answer reply \<times> world" where
  "make_route W sessionId participantId userMadeHex =
     respond
       (and_then (getSession sessionId) (\<lambda>session.
          case session of
            None \<Rightarrow> ret (Failure 404 ''Session not found'')
          | Some session \<Rightarrow>
              if status session \<noteq> Making then
                ret (Failure 400 (''Session is in '' @ status_name (status session)
                                  @ '' state, not ready for makeMultisig''))
              else if participantId = ''service'' then
                and_then (ask_unit W (OpenWalletFull (service_wallet_path session))) (\<lambda>_.
                and_then
                  (ask_str W (MakeMultisig
                     [user_a_prepared_hex session, user_b_prepared_hex session]
                     (threshold session))) (\<lambda>made.
                and_then (ask_unit W Close) (\<lambda>_.
                and_then (updateSession sessionId (\<lambda>s. s\<lparr>service_made_hex := Some made\<rparr>)) (\<lambda>_.
                make_check W sessionId participantId (Some made)))))
              else if participantId = ''user_a'' \<or> participantId = ''user_b'' then
                (case userMadeHex of
                   Text h \<Rightarrow>
                     if h = [] then ret (Failure 400 ''madeHex is required'')
                     else
                       and_then
                         (if participantId = ''user_a''
                          then updateSession sessionId (\<lambda>s. s\<lparr>user_a_made_hex := Some h\<rparr>)
                          else updateSession sessionId (\<lambda>s. s\<lparr>user_b_made_hex := Some h\<rparr>))
                         (\<lambda>_. make_check W sessionId participantId (Some h))
                 | _ \<Rightarrow> ret (Failure 400 ''madeHex is required''))
              else ret (Failure 400 ''Invalid participantId'')))"

subsection \<open>POST /multisig/:sessionId/exchange\<close>

definition totalRounds :: "session \<Rightarrow> int" where
  "totalRounds s = total_participants s - threshold s + 1"

definition allExchanged :: "session \<Rightarrow> bool" where
  "allExchanged s =
     (truthy (service_exchange_hexes s) \<and> truthy (user_a_exchange_hexes s)
      \<and> truthy (user_b_exchange_hexes s))"

text \<open>\<^verbatim>\<open>updateSession(id, { service_exchange_hexes: h })\<close> where \<open>h\<close> may be \<^verbatim>\<open>undefined\<close>.\<close>

fun write_hex :: "string option \<Rightarrow> string option \<Rightarrow> string option" where
  "write_hex None old = old"
| "write_hex (Some h) old = Some h"

text \<open>
  The block that re-creates the service wallet at its creation height once the
  session is ready.  Its errors are logged and dropped.
\<close>

fun truthy_height :: "int option \<Rightarrow> bool" where
  "truthy_height None = False"
| "truthy_height (Some h) = (h \<noteq> 0)"

definition fix_restore_height :: "wallet \<Rightarrow> string \<Rightarrow> unit prog" where
  "fix_restore_height W sessionId =
     try_catch
       (and_then (getSession_strict sessionId) (\<lambda>readySession.
          if truthy (service_wallet_path readySession)
             \<and> truthy_height (creation_height readySession) then
            and_then (ask_unit W (OpenWalletFull (service_wallet_path readySession))) (\<lambda>_.
            and_then (ask_str W GetSeed) (\<lambda>walletSeed.
            and_then (ask_unit W Close) (\<lambda>_.
            and_then
              (try_catch
                 (and_then (ask_unit W (Unlink (the (service_wallet_path readySession)))) (\<lambda>_.
                  ask_unit W (Unlink (the (service_wallet_path readySession) @ ''.keys''))))
                 (\<lambda>e. ret ())) (\<lambda>_.
            and_then
              (ask_unit W (CreateWalletFull (service_wallet_path readySession) walletSeed
                 (creation_height readySession))) (\<lambda>_.
            and_then (ask_num W GetHeight) (\<lambda>newHeight.
            ask_unit W Close))))))
          else ret ()))
       (\<lambda>error. ret ())"

record exchange_answer =
  exchangeHex :: "string option"
  currentRound :: int
  totalRounds_sent :: int
  allExchanged_sent :: bool
  isComplete :: bool
  multisigAddress :: "string option"

text \<open>The peer hexes the service path passes to \<^verbatim>\<open>exchangeMultisigKeys\<close>.\<close>

definition service_hexesToExchange :: "session \<Rightarrow> string option list" where
  "service_hexesToExchange session =
     (if exchange_round session = 0
      then [user_a_made_hex session, user_b_made_hex session]
      else [user_a_exchange_hexes_prev session, user_b_exchange_hexes_prev session])"

text \<open>The peer hexes the automatic exchange passes to \<^verbatim>\<open>exchangeMultisigKeys\<close>.\<close>

definition auto_hexesToExchange :: "session \<Rightarrow> string option list" where
  "auto_hexesToExchange updatedSession =
     (if exchange_round updatedSession = 0
      then [user_a_made_hex updatedSession, user_b_made_hex updatedSession]
      else [user_a_exchange_hexes updatedSession, user_b_exchange_hexes updatedSession])"

definition auto_exchange :: "wallet \<Rightarrow> string \<Rightarrow> session \<Rightarrow> unit prog" where
  "auto_exchange W sessionId updatedSession =
     try_catch
       (and_then (ask_unit W (OpenWalletFull (service_wallet_path updatedSession))) (\<lambda>_.
        and_then (ask_hex W (ExchangeMultisigKeys (auto_hexesToExchange updatedSession)))
          (\<lambda>serviceExchangeHex.
        and_then
          (if exchange_round updatedSession = totalRounds updatedSession - 1 then
             and_then (ask_str W GetAddress) (\<lambda>multisigAddress.
             updateSession sessionId (\<lambda>s.
               s\<lparr>service_exchange_hexes :=
                     write_hex serviceExchangeHex (service_exchange_hexes s),
                 multisig_address := Some multisigAddress\<rparr>))
           else
             updateSession sessionId (\<lambda>s.
               s\<lparr>service_exchange_hexes :=
                     write_hex serviceExchangeHex (service_exchange_hexes s)\<rparr>)) (\<lambda>_.
        and_then (ask_unit W Save) (\<lambda>_.
        ask_unit W Close)))))
       (\<lambda>error. ret ())"

text \<open>What the route does once all three slots of the round are filled.\<close>

definition advance_round :: "wallet \<Rightarrow> string \<Rightarrow> session \<Rightarrow> unit prog" where
  "advance_round W sessionId finalSession =
     (let nextRound = exchange_round finalSession + 1 in
      if totalRounds finalSession \<le> nextRound then
        and_then (updateSession sessionId (\<lambda>s. s\<lparr>status := Ready, exchange_round := nextRound\<rparr>))
          (\<lambda>_. fix_restore_height W sessionId)
      else
        updateSession sessionId (\<lambda>s.
          s\<lparr>exchange_round := nextRound,
            service_exchange_hexes_prev := service_exchange_hexes finalSession,
            user_a_exchange_hexes_prev := user_a_exchange_hexes finalSession,
            user_b_exchange_hexes_prev := user_b_exchange_hexes finalSession,
            service_exchange_hexes := None,
            user_a_exchange_hexes := None,
            user_b_exchange_hexes := None\<rparr>))"

definition exchange_check ::
  "wallet \<Rightarrow> string \<Rightarrow> string \<Rightarrow> string option \<Rightarrow> exchange_answer reply prog" where
  "exchange_check W sessionId participantId exchangeResultHex =
     and_then (getSession_strict sessionId) (\<lambda>updatedSession.
     and_then
       (if truthy (user_a_exchange_hexes updatedSession)
           \<and> truthy (user_b_exchange_hexes updatedSession)
           \<and> \<not> truthy (service_exchange_hexes updatedSession)
           \<and> participantId \<noteq> ''service''
        then auto_exchange W sessionId updatedSession else ret ()) (\<lambda>_.
     and_then (getSession_strict sessionId) (\<lambda>finalSession.
     and_then
       (if allExchanged finalSession then advance_round W sessionId finalSession else ret ())
       (\<lambda>_.
     ret (Success
       \<lparr>exchangeHex = (if participantId = ''service'' then exchangeResultHex else None),
        currentRound = exchange_round finalSession,
        totalRounds_sent = totalRounds finalSession,
        allExchanged_sent = allExchanged finalSession,
        isComplete = (status finalSession = Ready),
        multisigAddress = multisig_address finalSession\<rparr>)))))"

definition exchange_route ::
  "wallet \<Rightarrow> string \<Rightarrow> string \<Rightarrow> jsfield \<Rightarrow> world \<Rightarrow> exchange_answer reply \<times> world" where
  "exchange_route W sessionId participantId exchangeHexField =
     respond
       (and_then (getSession sessionId) (\<lambda>session.
          case session of
            None \<Rightarrow> ret (Failure 404 ''Session not found'')
          | Some session \<Rightarrow>
              if status session \<noteq> Exchanging then
                ret (Failure 400 (''Session is in '' @ status_name (status session)
                                  @ '' state, not ready for key exchange''))
              else if participantId = ''service'' then
                and_then (ask_unit W (OpenWalletFull (service_wallet_path session))) (\<lambda>_.
                and_then (ask_hex W (ExchangeMultisigKeys (service_hexesToExchange session)))
                  (\<lambda>exchangeResultHex.
                and_then
                  (if exchange_round session = totalRounds session - 1 then
                     and_then (ask_str W GetAddress) (\<lambda>multisigAddress.
                     updateSession sessionId (\<lambda>s. s\<lparr>multisig_address := Some multisigAddress\<rparr>))
                   else ret ()) (\<lambda>_.
                and_then (ask_unit W Save) (\<lambda>_.
                and_then (ask_unit W Close) (\<lambda>_.
                and_then
                  (updateSession sessionId (\<lambda>s.
                     s\<lparr>service_exchange_hexes :=
                           write_hex exchangeResultHex (service_exchange_hexes s)\<rparr>)) (\<lambda>_.
                exchange_check W sessionId participantId exchangeResultHex))))))
              else if participantId = ''user_a'' \<or> participantId = ''user_b'' then
                (case exchangeHexField of
                   Text h \<Rightarrow>
                     if h = [] then ret (Failure 400 ''exchangeHex is required'')
                     else
                       and_then
                         (if participantId = ''user_a''
                          then updateSession sessionId (\<lambda>s. s\<lparr>user_a_exchange_hexes := Some h\<rparr>)
                          else updateSession sessionId (\<lambda>s. s\<lparr>user_b_exchange_hexes := Some h\<rparr>))
                         (\<lambda>_. exchange_check W sessionId participantId (Some h))
                 | _ \<Rightarrow> ret (Failure 400 ''exchangeHex is required''))
              else ret (Failure 400 ''Invalid participantId'')))"

subsection \<open>POST /multisig/:sessionId/admin/retry-service-exchange\<close>

record retry_answer =
  retry_isComplete :: bool
  retry_multisigAddress :: "string option"

definition retry_hexesToExchange :: "session \<Rightarrow> string option list" where
  "retry_hexesToExchange session =
     (if exchange_round session = 0
      then [user_a_made_hex session, user_b_made_hex session]
      else [user_a_exchange_hexes session, user_b_exchange_hexes session])"

definition retry_advance :: "wallet \<Rightarrow> string \<Rightarrow> session \<Rightarrow> unit prog" where
  "retry_advance W sessionId updatedSession =
     (let nextRound = exchange_round updatedSession + 1 in
      if totalRounds updatedSession \<le> nextRound then
        and_then (updateSession sessionId (\<lambda>s. s\<lparr>status := Ready, exchange_round := nextRound\<rparr>))
          (\<lambda>_. fix_restore_height W sessionId)
      else updateSession sessionId (\<lambda>s. s\<lparr>exchange_round := nextRound\<rparr>))"

definition retry_service_exchange ::
  "wallet \<Rightarrow> string \<Rightarrow> world \<Rightarrow> retry_answer reply \<times> world" where
  "retry_service_exchange W sessionId =
     respond
       (and_then (getSession sessionId) (\<lambda>session.
          case session of
            None \<Rightarrow> ret (Failure 404 ''Session not found'')
          | Some session \<Rightarrow>
              if status session \<noteq> Exchanging then
                ret (Failure 400 (''Session is in '' @ status_name (status session)
                                  @ '' state, not exchanging''))
              else if \<not> (truthy (user_a_exchange_hexes session)
                          \<and> truthy (user_b_exchange_hexes session)) then
                ret (Failure 400 ''Both users must exchange keys first'')
              else if truthy (service_exchange_hexes session) then
                ret (Failure 400 ''Service already exchanged keys'')
              else
                and_then (ask_unit W (OpenWalletFull (service_wallet_path session))) (\<lambda>_.
                and_then (ask_unit W IsMultisig) (\<lambda>_.
                and_then (ask_hex W (ExchangeMultisigKeys (retry_hexesToExchange session)))
                  (\<lambda>serviceExchangeHex.
                and_then
                  (if exchange_round session = totalRounds session - 1 then
                     and_then (ask_str W GetAddress) (\<lambda>multisigAddress.
                     updateSession sessionId (\<lambda>s.
                       s\<lparr>service_exchange_hexes :=
                             write_hex serviceExchangeHex (service_exchange_hexes s),
                         multisig_address := Some multisigAddress\<rparr>))
                   else
                     updateSession sessionId (\<lambda>s.
                       s\<lparr>service_exchange_hexes :=
                             write_hex serviceExchangeHex (service_exchange_hexes s)\<rparr>)) (\<lambda>_.
                and_then (ask_unit W Save) (\<lambda>_.
                and_then (ask_unit W Close) (\<lambda>_.
                and_then (getSession_strict sessionId) (\<lambda>updatedSession.
                and_then
                  (if allExchanged updatedSession
                   then retry_advance W sessionId updatedSession else ret ()) (\<lambda>_.
                ret (Success \<lparr>retry_isComplete = (status updatedSession = Ready),
                              retry_multisigAddress = multisig_address updatedSession\<rparr>)))))))))))"

section \<open>Trade lifecycle (routes/trades.ts)\<close>

text \<open>The literal \<^verbatim>\<open>0.005\<close>.\<close>

definition FEE_PERCENTAGE :: rat where
  "FEE_PERCENTAGE = to_double (5 / 1000)"

text \<open>
  db.ts, \<^verbatim>\<open>recordPlatformFee\<close>: an INSERT into \<^verbatim>\<open>platform_fees\<close>, whose only
  constraint on an existing trade is the primary key \<^verbatim>\<open>id\<close>.
\<close>

definition recordPlatformFee :: "string \<Rightarrow> string \<Rightarrow> rat \<Rightarrow> rat \<Rightarrow> unit prog" where
  "recordPlatformFee feeId tradeId amountXmr feePercentage = (\<lambda>w.
     if feeId \<in> fee_id ` set (platform_fees w)
     then (Inl ''UNIQUE constraint failed: platform_fees.id'', w)
     else (Inr (), w\<lparr>platform_fees := platform_fees w @
             [\<lparr>fee_id = feeId, fee_trade_id = tradeId, amount_xmr = amountXmr,
               fee_percentage = feePercentage\<rparr>]\<rparr>))"

subsection \<open>POST /trades/:id/initiate-release\<close>

record initiate_answer =
  unsignedTxHex :: string
  recipientAddress_sent :: string
  tradeAmount :: rat
  platformFee :: rat
  recipientReceives :: rat

text \<open>The statements of the route after its guards: from opening the wallet to the answer.\<close>

definition build_release_tx ::
  "wallet \<Rightarrow> session \<Rightarrow> trade \<Rightarrow> string \<Rightarrow> initiate_answer reply prog" where
  "build_release_tx W session trade address =
     and_then (ask_unit W (OpenWalletFull (service_wallet_path session))) (\<lambda>_.
     and_then (ask_unit W Sync) (\<lambda>_.
     let feeXmr = js_mul (xmr_amount trade) FEE_PERCENTAGE;
         amountAfterFee = js_sub (xmr_amount trade) feeXmr
     in
     and_then (lift_result (to_atomic amountAfterFee)) (\<lambda>amountAfterFeeAtomic.
     and_then (ask_unit W (CreateTx address amountAfterFeeAtomic)) (\<lambda>_.
     and_then (ask_str W ExportMultisigHex) (\<lambda>unsignedTxHex.
     and_then (ask_unit W Close) (\<lambda>_.
     ret (Success
       \<lparr>unsignedTxHex = unsignedTxHex,
        recipientAddress_sent = address,
        tradeAmount = xmr_amount trade,
        platformFee = feeXmr,
        recipientReceives = amountAfterFee\<rparr>)))))))"

definition initiate_release ::
  "wallet \<Rightarrow> string \<Rightarrow> string \<Rightarrow> jsfield \<Rightarrow> world \<Rightarrow> initiate_answer reply \<times> world" where
  "initiate_release W tradeId userId recipientAddress =
     respond
       (and_then (getTradeById tradeId) (\<lambda>trade.
          case trade of
            None \<Rightarrow> ret (Failure 404 ''Trade not found'')
          | Some trade \<Rightarrow>
              if seller_id trade \<noteq> userId then
                ret (Failure 403 ''Only the seller can initiate escrow release'')
              else if trade_status trade \<noteq> Payment_sent then
                ret (Failure 400 (''Trade must be in 'payment_sent' status. Current status: ''
                                  @ trade_status_name (trade_status trade)))
              else
                (case recipientAddress of
                   Text address \<Rightarrow>
                     if address = [] then
                       ret (Failure 400 ''recipientAddress (your XMR address) is required'')
                     else if \<not> truthy (multisig_session_id trade) then
                       ret (Failure 400 ''Trade does not have an associated multisig session'')
                     else
                       and_then (getSession (the (multisig_session_id trade))) (\<lambda>session.
                         case session of
                           None \<Rightarrow> ret (Failure 400 ''Multisig session is not ready'')
                         | Some session \<Rightarrow>
                             if status session \<noteq> Ready then
                               ret (Failure 400 ''Multisig session is not ready'')
                             else build_release_tx W session trade address)
                 | _ \<Rightarrow> ret (Failure 400 ''recipientAddress (your XMR address) is required''))))"

subsection \<open>POST /trades/:id/finalize-release\<close>

record finalize_answer =
  txHashes :: "string list"
  trade_sent :: "trade option"

text \<open>
  \<^verbatim>\<open>require("crypto").randomBytes(16).toString("hex")\<close>.  The server's files are ES
  modules (they import with \<^verbatim>\<open>import\<close>, and db.ts and the multisig routes read
  \<^verbatim>\<open>import.meta.url\<close>), where the name \<^verbatim>\<open>require\<close> is not bound: evaluating it throws a
  ReferenceError, and no fee id is produced.  \<open>referenceError\<close> is the message of that
  error.
\<close>

definition require_crypto_randomBytes :: "string \<Rightarrow> string prog" where
  "require_crypto_randomBytes referenceError = throw referenceError"

text \<open>The statements of the route after its guards: from marking the trade to the answer.\<close>

definition cosign_and_complete ::
  "wallet \<Rightarrow> string \<Rightarrow> string \<Rightarrow> trade \<Rightarrow> session \<Rightarrow> string \<Rightarrow> finalize_answer reply prog"
  where
  "cosign_and_complete W referenceError tradeId trade session signedHex =
     and_then (updateTrade tradeId (\<lambda>t. t\<lparr>trade_status := Releasing\<rparr>)) (\<lambda>_.
     and_then (ask_unit W (OpenWalletFull (service_wallet_path session))) (\<lambda>_.
     and_then (ask_str W (SignMultisigTxHex signedHex)) (\<lambda>finalSignedHex.
     and_then (ask_list W (SubmitMultisigTxHex finalSignedHex)) (\<lambda>hashes.
     and_then (ask_unit W Close) (\<lambda>_.
     let feeXmr = js_mul (xmr_amount trade) FEE_PERCENTAGE in
     and_then (require_crypto_randomBytes referenceError) (\<lambda>feeId.
     and_then (recordPlatformFee feeId tradeId feeXmr FEE_PERCENTAGE) (\<lambda>_.
     and_then (updateTrade tradeId (\<lambda>t. t\<lparr>trade_status := Completed\<rparr>)) (\<lambda>_.
     and_then (getTradeById tradeId) (\<lambda>t.
     ret (Success \<lparr>txHashes = hashes, trade_sent = t\<rparr>))))))))))"

definition finalize_release ::
  "wallet \<Rightarrow> string \<Rightarrow> string \<Rightarrow> string \<Rightarrow> jsfield \<Rightarrow> world \<Rightarrow> finalize_answer reply \<times> world"
  where
  "finalize_release W referenceError tradeId userId sellerSignedHex =
     respond
       (and_then (getTradeById tradeId) (\<lambda>trade.
          case trade of
            None \<Rightarrow> ret (Failure 404 ''Trade not found'')
          | Some trade \<Rightarrow>
              if seller_id trade \<noteq> userId then
                ret (Failure 403 ''Only the seller can finalize release'')
              else
                (case sellerSignedHex of
                   Text signedHex \<Rightarrow>
                     if signedHex = [] then ret (Failure 400 ''sellerSignedHex is required'')
                     else
                       and_then
                         (case multisig_session_id trade of
                            None \<Rightarrow> ret None
                          | Some sid \<Rightarrow> getSession sid) (\<lambda>session.
                         case session of
                           None \<Rightarrow> ret (Failure 404 ''Multisig session not found'')
                         | Some session \<Rightarrow>
                             cosign_and_complete W referenceError tradeId trade session signedHex)
                 | _ \<Rightarrow> ret (Failure 400 ''sellerSignedHex is required''))))"

section \<open>The lock of checkWalletDeposits\<close>

text \<open>
  Several invocations of \<^verbatim>\<open>checkWalletDeposits\<close> in flight on the one JavaScript
  thread.  An invocation runs until its next \<^verbatim>\<open>await\<close>; it goes on, in a later turn,
  once the awaited promise is settled.  The promise returned by an invocation's
  \<^verbatim>\<open>performWalletCheck\<close> carries the invocation's number, and \<^verbatim>\<open>walletLocks\<close> maps a
  session id to such a promise.

  \<open>AwaitLock p\<close>: suspended at \<^verbatim>\<open>await walletLocks.get(sessionId)\<close> on promise \<open>p\<close>.
  \<open>AwaitOwn\<close>: \<^verbatim>\<open>performWalletCheck\<close> started, suspended at \<^verbatim>\<open>await operationPromise\<close>.
  \<open>Returned\<close>: the \<^verbatim>\<open>finally\<close> block has run.
\<close>

datatype pc = AwaitLock nat | AwaitOwn | Returned

record lock_state =
  walletLocks :: "string \<rightharpoonup> nat"
  settled :: "nat list"
  invocations :: "nat \<rightharpoonup> string \<times> pc"

definition no_invocation :: lock_state where
  "no_invocation = \<lparr>walletLocks = Map.empty, settled = [], invocations = Map.empty\<rparr>"

text \<open>
  \<^verbatim>\<open>const operationPromise = performWalletCheck(..); walletLocks.set(sessionId, operationPromise)\<close>
  and the suspension at \<^verbatim>\<open>await operationPromise\<close>.
\<close>

definition start_check :: "nat \<Rightarrow> string \<Rightarrow> lock_state \<Rightarrow> lock_state" where
  "start_check i sessionId st =
     st\<lparr>walletLocks := (walletLocks st)(sessionId \<mapsto> i),
        invocations := (invocations st)(i \<mapsto> (sessionId, AwaitOwn))\<rparr>"

text \<open>
  \<open>Call i sid\<close>: a new invocation, numbered \<open>i\<close>, runs to its first \<^verbatim>\<open>await\<close>.
  \<open>Settle i\<close>: the \<^verbatim>\<open>performWalletCheck\<close> of invocation \<open>i\<close> returns (its wallet is
  closed, its promise settled).
  \<open>Resume i\<close>: invocation \<open>i\<close> goes on after its \<^verbatim>\<open>await\<close>.
  An event that cannot happen in the state yields \<open>None\<close>.
\<close>

datatype event = Call nat string | Settle nat | Resume nat

fun fire :: "event \<Rightarrow> lock_state \<Rightarrow> lock_state option" where
  "fire (Call i sessionId) st =
     (if invocations st i \<noteq> None then None
      else case walletLocks st sessionId of
             Some p \<Rightarrow> Some (st\<lparr>invocations := (invocations st)(i \<mapsto> (sessionId, AwaitLock p))\<rparr>)
           | None \<Rightarrow> Some (start_check i sessionId st))"
| "fire (Settle i) st =
     (case invocations st i of
        Some (sessionId, AwaitOwn) \<Rightarrow>
          if i \<in> set (settled st) then None else Some (st\<lparr>settled := i # settled st\<rparr>)
      | _ \<Rightarrow> None)"
| "fire (Resume i) st =
     (case invocations st i of
        Some (sessionId, AwaitLock p) \<Rightarrow>
          if p \<in> set (settled st) then Some (start_check i sessionId st) else None
      | Some (sessionId, AwaitOwn) \<Rightarrow>
          if i \<in> set (settled st)
          then Some (st\<lparr>walletLocks := (walletLocks st)(sessionId := None),
                        invocations := (invocations st)(i \<mapsto> (sessionId, Returned))\<rparr>)
          else None
      | _ \<Rightarrow> None)"

fun run :: "event list \<Rightarrow> lock_state \<Rightarrow> lock_state option" where
  "run [] st = Some st"
| "run (e # es) st = (case fire e st of None \<Rightarrow> None | Some st' \<Rightarrow> run es st')"

text \<open>
  Invocation \<open>i\<close> is inside its wallet round trip for session \<open>sid\<close>: its
  \<^verbatim>\<open>performWalletCheck\<close> has started and has not returned.
\<close>

definition in_round_trip :: "lock_state \<Rightarrow> string \<Rightarrow> nat \<Rightarrow> bool" where
  "in_round_trip st sid i =
     (invocations st i = Some (sid, AwaitOwn) \<and> i \<notin> set (settled st))"

section \<open>Example data\<close>

text \<open>A wallet that never throws: heights 1000, balances of 3 XMR, fixed strings.\<close>

definition funded_wallet :: wallet where
  "funded_wallet =
     \<lparr>unit_reply = (\<lambda>log c. None),
      str_reply = (\<lambda>log c. Inr ''4aa0''),
      hex_reply = (\<lambda>log c. Inr (Some ''4bb0'')),
      num_reply = (\<lambda>log c. Inr (case c of GetBalance \<Rightarrow> 3000000000000
                                     | GetUnlockedBalance \<Rightarrow> 3000000000000
                                     | _ \<Rightarrow> 1000)),
      list_reply = (\<lambda>log c. Inr [''tx1''])\<rparr>"

text \<open>The same wallet with an empty balance.\<close>

definition empty_wallet :: wallet where
  "empty_wallet = funded_wallet\<lparr>num_reply := (\<lambda>log c. Inr (case c of GetBalance \<Rightarrow> 0
                                     | GetUnlockedBalance \<Rightarrow> 0
                                     | _ \<Rightarrow> 1000))\<rparr>"

text \<open>A wallet whose every call throws.\<close>

definition failing_wallet :: wallet where
  "failing_wallet =
     \<lparr>unit_reply = (\<lambda>log c. Some ''daemon unreachable''),
      str_reply = (\<lambda>log c. Inl ''daemon unreachable''),
      hex_reply = (\<lambda>log c. Inl ''daemon unreachable''),
      num_reply = (\<lambda>log c. Inl ''daemon unreachable''),
      list_reply = (\<lambda>log c. Inl ''daemon unreachable'')\<rparr>"

definition fresh_session :: session where
  "fresh_session = created_session ''wallets/service_s1'' ''5service'' ''prep_s'' 1000"

definition ready_session :: session where
  "ready_session =
     fresh_session\<lparr>status := Ready, exchange_round := 2, multisig_address := Some ''5multisig'',
       user_a_prepared_hex := Some ''prep_a'', user_b_prepared_hex := Some ''prep_b'',
       service_made_hex := Some ''made_s'', user_a_made_hex := Some ''made_a'',
       user_b_made_hex := Some ''made_b''\<rparr>"

text \<open>A session that has just entered the exchange phase.\<close>

definition exchanging_session :: session where
  "exchanging_session =
     fresh_session\<lparr>status := Exchanging,
       user_a_id := Some ''bob'', user_b_id := Some ''sally'',
       user_a_prepared_hex := Some ''prep_a'', user_b_prepared_hex := Some ''prep_b'',
       service_made_hex := Some ''made_s'', user_a_made_hex := Some ''made_a'',
       user_b_made_hex := Some ''made_b''\<rparr>"

text \<open>Round 0, both users have exchanged, the service has not.\<close>

definition stuck_session :: session where
  "stuck_session =
     exchanging_session\<lparr>user_a_exchange_hexes := Some ''ex_a0'',
       user_b_exchange_hexes := Some ''ex_b0''\<rparr>"

text \<open>Round 1 after a regular advance; user A has already sent its round-1 hex.\<close>

definition round1_session :: session where
  "round1_session =
     exchanging_session\<lparr>exchange_round := 1,
       service_exchange_hexes_prev := Some ''ex_s0'',
       user_a_exchange_hexes_prev := Some ''ex_a0'',
       user_b_exchange_hexes_prev := Some ''ex_b0'',
       user_a_exchange_hexes := Some ''ex_a1''\<rparr>"

definition example_trade :: trade where
  "example_trade =
     \<lparr>offer_id = ''o1'', buyer_id = ''bob'', seller_id = ''sally'', amount = 300,
      xmr_amount = 2, trade_status = Pending, multisig_session_id = Some ''s1''\<rparr>"

text \<open>The example trade once the buyer has marked the payment as sent.\<close>

definition paid_trade :: trade where
  "paid_trade = example_trade\<lparr>trade_status := Payment_sent\<rparr>"

text \<open>A paid trade of 129 XMR.\<close>

definition large_trade :: trade where
  "large_trade = paid_trade\<lparr>xmr_amount := 129\<rparr>"



text \<open>A session with user A's prepared hex, waiting for user B's.\<close>

definition half_prepared_session :: session where
  "half_prepared_session = fresh_session\<lparr>user_a_prepared_hex := Some ''prep_a''\<rparr>"

text \<open>A session in the make phase; user A has sent its made hex.\<close>

definition making_session :: session where
  "making_session =
     fresh_session\<lparr>status := Making,
       user_a_prepared_hex := Some ''prep_a'', user_b_prepared_hex := Some ''prep_b'',
       user_a_made_hex := Some ''made_a''\<rparr>"

text \<open>A wallet with an empty balance that refuses to build a transaction.\<close>

definition refusing_wallet :: wallet where
  "refusing_wallet =
     empty_wallet\<lparr>unit_reply := (\<lambda>log c. case c of CreateTx a n \<Rightarrow> Some ''not enough money''
                                              | _ \<Rightarrow> None)\<rparr>"

definition world_of :: "session \<Rightarrow> trade \<Rightarrow> world" where
  "world_of s t =
     \<lparr>sessions = [''s1'' \<mapsto> s], trades = [''t1'' \<mapsto> t], platform_fees = [], wallet_log = []\<rparr>"

section \<open>Predicates used in the statements\<close>



text \<open>
  The session row the exchange route leaves behind, given the row \<open>fin\<close> it reads as
  \<^verbatim>\<open>finalSession\<close>.
\<close>

definition after_round :: "session \<Rightarrow> session" where
  "after_round fin =
     (if \<not> allExchanged fin then fin
      else if totalRounds fin \<le> exchange_round fin + 1
      then fin\<lparr>status := Ready, exchange_round := exchange_round fin + 1\<rparr>
      else fin\<lparr>exchange_round := exchange_round fin + 1,
               service_exchange_hexes_prev := service_exchange_hexes fin,
               user_a_exchange_hexes_prev := user_a_exchange_hexes fin,
               user_b_exchange_hexes_prev := user_b_exchange_hexes fin,
               service_exchange_hexes := None,
               user_a_exchange_hexes := None,
               user_b_exchange_hexes := None\<rparr>)"


text \<open>
  A run of four requests on a session that has just entered the exchange phase: user A
  sends its round-0 hex; user B sends its round-0 hex while the wallet is unreachable,
  so the automatic exchange fails; the operator retries the service exchange; user A
  sends its round-1 hex.
\<close>

definition stale_round_run :: world where
  "stale_round_run =
     (let w0 = world_of exchanging_session example_trade;
          w1 = snd (exchange_route funded_wallet ''s1'' ''user_a'' (Text ''ex_a0'') w0);
          w2 = snd (exchange_route failing_wallet ''s1'' ''user_b'' (Text ''ex_b0'') w1);
          w3 = snd (retry_service_exchange funded_wallet ''s1'' w2)
      in snd (exchange_route funded_wallet ''s1'' ''user_a'' (Text ''ex_a1'') w3))"

section \<open>Evaluation\<close>

lemmas prog_defs = ret_def throw_def and_then_def try_catch_def lift_result_def
  ask_unit_def ask_num_def ask_str_def ask_hex_def ask_list_def
  getSession_def updateSession_def getTradeById_def updateTrade_def

lemmas example_defs = funded_wallet_def empty_wallet_def failing_wallet_def fresh_session_def
  created_session_def ready_session_def exchanging_session_def stuck_session_def
  round1_session_def example_trade_def world_of_def half_prepared_session_def
  making_session_def

text \<open>Rules that let the simplifier run the number functions on numerals.\<close>

lemma floor_rat_numeral_div: "\<lfloor>(numeral a :: rat) / numeral b\<rfloor> = numeral a div numeral b"
  using floor_divide_of_int_eq [of "numeral a" "numeral b", where ?'a = rat] by simp

lemma log2_up_less: "x < 2 \<Longrightarrow> log2_up x = 0"
  by (simp add: log2_up.simps)

lemma log2_up_step: "\<not> x < 2 \<Longrightarrow> log2_up x = Suc (log2_up (x / 2))"
  by (subst log2_up.simps) simp

lemma log2_down_stop: "x \<le> 0 \<or> 1 \<le> x \<Longrightarrow> log2_down x = 0"
  by (subst log2_down.simps) simp

lemma log2_down_step: "\<not> (x \<le> 0 \<or> 1 \<le> x) \<Longrightarrow> log2_down x = Suc (log2_down (2 * x))"
  by (subst log2_down.simps) simp

lemmas number_eval = to_atomic_def js_mul_def js_sub_def js_div_def to_double_def ilog2_def
  round_half_even_def is_finite_def FEE_PERCENTAGE_def Let_def floor_rat_numeral_div
  log2_up_less log2_up_step log2_down_stop log2_down_step


lemma fee_of_2: "js_mul 2 FEE_PERCENTAGE = to_double (1 / 100)"
  by (simp add: number_eval)

lemma payout_of_2: "js_sub 2 (to_double (1 / 100)) = to_double (199 / 100)"
  by (simp add: number_eval)

lemma atomic_payout_of_2: "to_atomic (to_double (199 / 100)) = Inr 1990000000000"
  by (simp add: number_eval)

lemma atomic_payout_of_129:
  "to_atomic (js_sub 129 (js_mul 129 FEE_PERCENTAGE)) = Inr 128354999999999"
  by (simp add: number_eval)

lemma fee_of_129: "js_mul 129 FEE_PERCENTAGE = to_double (129 / 200)"
  by (simp add: number_eval)

lemma exact_payout_of_129: "\<lfloor>(129 :: rat) * (1 - 5 / 1000) * 10 ^ 12\<rfloor> = 128355000000000"
  by simp




text \<open>The rounding error of \<open>to_double\<close> in the normal range, and what follows for the payout.\<close>

lemma log2_up_bounds: "1 \<le> x \<Longrightarrow> 2 ^ log2_up x \<le> x \<and> x < 2 ^ Suc (log2_up x)"
proof (induction x rule: log2_up.induct)
  case (1 x)
  show ?case
  proof (cases "x < 2")
    case True
    with "1.prems" show ?thesis by (simp add: log2_up.simps [of x])
  next
    case False
    then have "1 \<le> x / 2" by simp
    with "1.IH" False have "2 ^ log2_up (x / 2) \<le> x / 2 \<and> x / 2 < 2 ^ Suc (log2_up (x / 2))"
      by blast
    moreover have "log2_up x = Suc (log2_up (x / 2))" using False by (subst log2_up.simps) simp
    ultimately show ?thesis by simp
  qed
qed

lemma log2_down_bounds:
  "0 < x \<Longrightarrow> x < 1 \<Longrightarrow> 1 \<le> x * 2 ^ log2_down x \<and> x * 2 ^ log2_down x < 2"
proof (induction x rule: log2_down.induct)
  case (1 x)
  have s: "log2_down x = Suc (log2_down (2 * x))"
    using "1.prems" by (subst log2_down.simps) simp
  show ?case
  proof (cases "1 \<le> 2 * x")
    case True
    then have "log2_down (2 * x) = 0" by (subst log2_down.simps) simp
    with s True "1.prems" show ?thesis by simp
  next
    case False
    then have "2 * x < 1" by simp
    moreover have "0 < 2 * x" using "1.prems" by simp
    moreover have "\<not> (x \<le> 0 \<or> 1 \<le> x)" using "1.prems" by simp
    ultimately have "1 \<le> 2 * x * 2 ^ log2_down (2 * x) \<and> 2 * x * 2 ^ log2_down (2 * x) < 2"
      using "1.IH" by blast
    with s show ?thesis by (simp add: mult.commute mult.left_commute)
  qed
qed

lemma ilog2_bounds:
  assumes "0 < x"
  shows "2 powi ilog2 x \<le> x \<and> x < 2 powi (ilog2 x + 1)"
proof (cases "1 \<le> x")
  case True
  with log2_up_bounds [OF True] show ?thesis
    by (simp add: ilog2_def power_int_add)
next
  case False
  then have "x < 1" by simp
  from log2_down_bounds [OF assms this]
  have b: "1 \<le> x * 2 ^ log2_down x" "x * 2 ^ log2_down x < 2" by simp_all
  have p: "(0::rat) < 2 ^ log2_down x" by simp
  have 1: "2 powi (- int (log2_down x)) \<le> x"
    using b(1) p by (simp add: power_int_minus field_simps)
  have "(2::rat) powi (1 - int (log2_down x)) = 2 / 2 ^ log2_down x"
    by (simp add: power_int_diff)
  moreover have "x < 2 / 2 ^ log2_down x" using b(2) p by (simp add: field_simps)
  ultimately have 2: "x < 2 powi (- int (log2_down x) + 1)" by simp
  from False 1 2 show ?thesis by (simp add: ilog2_def)
qed

lemma round_half_even_err: "\<bar>of_int (round_half_even y) - y\<bar> \<le> 1 / 2"
proof -
  have "of_int \<lfloor>y\<rfloor> \<le> y" "y < of_int \<lfloor>y\<rfloor> + 1" by linarith+
  then show ?thesis
    unfolding round_half_even_def Let_def by (auto simp add: abs_le_iff)
qed

lemma to_double_err:
  assumes "2 powi (- 1022) \<le> \<bar>x\<bar>"
  shows "\<bar>to_double x - x\<bar> \<le> \<bar>x\<bar> / 2 ^ 53"
proof -
  have "(0::rat) < 2 powi (- 1022)" by simp
  with assms have pos: "0 < \<bar>x\<bar>" by linarith
  then have nz: "x \<noteq> 0" by simp
  define e where "e = ilog2 \<bar>x\<bar>"
  from ilog2_bounds [OF pos] have b: "2 powi e \<le> \<bar>x\<bar>" "\<bar>x\<bar> < 2 powi (e + 1)"
    by (simp_all add: e_def)
  have lt: "(2::rat) powi (- 1022) < 2 powi (e + 1)" using assms b(2) by linarith
  have "- 1022 < e + 1"
  proof (rule ccontr)
    assume "\<not> - 1022 < e + 1"
    then have "e + 1 \<le> - 1022" by simp
    then have "(2::rat) powi (e + 1) \<le> 2 powi (- 1022)"
      by (intro power_int_increasing) simp_all
    with lt show False by simp
  qed
  then have q: "max (e - 52) (- 1074) = e - 52" by simp
  define g :: rat where "g = 2 powi (e - 52)"
  have g: "0 < g" by (simp add: g_def)
  define R where "R = round_half_even (\<bar>x\<bar> / g)"
  have td: "to_double x = sgn x * of_int R * g"
    using nz q by (simp add: to_double_def Let_def e_def [symmetric] g_def R_def)
  have "sgn x * (of_int R * g - \<bar>x\<bar>) = sgn x * of_int R * g - sgn x * \<bar>x\<bar>"
    by (simp add: algebra_simps)
  also have "\<dots> = to_double x - x" by (simp only: td mult_sgn_abs)
  finally have "\<bar>to_double x - x\<bar> = \<bar>sgn x * (of_int R * g - \<bar>x\<bar>)\<bar>" by simp
  also have "\<dots> = \<bar>of_int R * g - \<bar>x\<bar>\<bar>" using nz by (simp add: abs_mult abs_sgn_eq)
  also have "\<dots> = \<bar>of_int R - \<bar>x\<bar> / g\<bar> * g"
    using g by (simp add: abs_mult [symmetric] field_simps abs_of_pos)
  also have "\<dots> \<le> 1 / 2 * g"
    using round_half_even_err [of "\<bar>x\<bar> / g"] g unfolding R_def
    by (intro mult_right_mono) simp_all
  also have "1 / 2 * g = 2 powi e / 2 ^ 53"
    by (simp add: g_def power_int_diff)
  also have "\<dots> \<le> \<bar>x\<bar> / 2 ^ 53" using b(1) by (simp add: divide_right_mono)
  finally show ?thesis .
qed


lemma FEE_PERCENTAGE_value: "FEE_PERCENTAGE = 5764607523034235 / 1152921504606846976"
  by (simp add: number_eval)

lemma tiny: "(2::rat) powi (- 1022) \<le> 1 / 10 ^ 15"
  by (simp add: power_int_minus field_simps)

lemma payout_bound:
  assumes lo: "1 / 10 ^ 12 \<le> X" and hi: "X \<le> 2 ^ 64"
  shows "\<exists>n. to_atomic (js_sub X (js_mul X FEE_PERCENTAGE)) = Inr n
     \<and> \<bar>of_int n - X * (199 / 200) * 10 ^ 12\<bar> < 1 + X * 10 ^ 12 / 2 ^ 51"
proof -
  define c :: rat where "c = 5764607523034235 / 1152921504606846976"
  define t where "t = X * c"
  define f where "f = to_double t"
  define A where "A = to_double (X - f)"
  define P where "P = to_double (A * 1000000000000)"
  have "(0::rat) < 1 / 10 ^ 12" by simp
  with lo have X: "0 < X" by linarith
  have lo': "1 / 1000000000000 \<le> X" using lo by simp
  have tn: "(2::rat) powi (- 1022) \<le> 1 / 1000000000000000" using tiny by simp
  have c1: "1 / 201 \<le> c" and c2: "c \<le> 1 / 199"
    and c3: "c - 1 / 200 \<le> 1 / 1152921504606846976" and c4: "0 \<le> c - 1 / 200"
    by (simp_all add: c_def)
  have t1: "X * (1 / 201) \<le> t" unfolding t_def using c1 X by (intro mult_left_mono) simp_all
  have t2: "t \<le> X * (1 / 199)" unfolding t_def using c2 X by (intro mult_left_mono) simp_all
  have "X * (c - 1 / 200) \<le> X * (1 / 1152921504606846976)"
    using c3 X by (intro mult_left_mono) simp_all
  then have t3: "t - X / 200 \<le> X / 1152921504606846976" by (simp add: t_def algebra_simps)
  have "0 \<le> X * (c - 1 / 200)" using c4 X by simp
  then have t4: "X / 200 \<le> t" by (simp add: t_def algebra_simps)
  have t1': "X / 201 \<le> t" using t1 by simp
  have t2': "t \<le> X / 199" using t2 by simp
  have tpos: "\<bar>t\<bar> = t" using t1' X by simp
  have "2 powi (- 1022) \<le> \<bar>t\<bar>" using tn t1' lo' unfolding tpos by linarith
  from to_double_err [OF this] have "\<bar>f - t\<bar> \<le> t / 2 ^ 53" by (simp only: f_def tpos)
  then have e1: "\<bar>f - t\<bar> \<le> t / 9007199254740992" by simp
  have f1: "f \<le> t + t / 9007199254740992" using abs_le_D1 [OF e1] by linarith
  have f2: "t - t / 9007199254740992 \<le> f" using abs_le_D2 [OF e1] by linarith
  define D where "D = X - f"
  have d1: "D \<le> X - t + t / 9007199254740992" using f2 by (simp add: D_def)
  have d2: "X - t - t / 9007199254740992 \<le> D" using f1 by (simp add: D_def)
  have d3: "X / 2 \<le> D" using d2 t2' X by linarith
  have dpos: "\<bar>D\<bar> = D" using d3 X by simp
  have "2 powi (- 1022) \<le> \<bar>D\<bar>" using tn d3 lo' unfolding dpos by linarith
  from to_double_err [OF this] have "\<bar>to_double D - D\<bar> \<le> D / 2 ^ 53"
    by (simp only: dpos)
  then have e2: "\<bar>A - D\<bar> \<le> D / 9007199254740992" by (simp add: A_def D_def)
  have a1: "A \<le> D + D / 9007199254740992" using abs_le_D1 [OF e2] by linarith
  have a2: "D - D / 9007199254740992 \<le> A" using abs_le_D2 [OF e2] by linarith
  have Ahalf: "X / 4 \<le> A" using a2 d3 X by linarith
  have apos: "\<bar>A * 1000000000000\<bar> = A * 1000000000000" using Ahalf X by simp
  have "2 powi (- 1022) \<le> \<bar>A * 1000000000000\<bar>" using tn Ahalf lo' unfolding apos by linarith
  from to_double_err [OF this]
  have "\<bar>P - A * 1000000000000\<bar> \<le> A * 1000000000000 / 2 ^ 53" by (simp only: P_def apos)
  then have e3: "\<bar>P - A * 1000000000000\<bar> \<le> A * 1000000000000 / 9007199254740992" by simp
  have p1: "P \<le> A * 1000000000000 + A * 1000000000000 / 9007199254740992"
    using abs_le_D1 [OF e3] by linarith
  have p2: "A * 1000000000000 - A * 1000000000000 / 9007199254740992 \<le> P"
    using abs_le_D2 [OF e3] by linarith
  have P0: "0 \<le> P" using p2 Ahalf X by linarith
  have P4: "P \<le> 4000000000000 * X" using p1 a1 d1 t1' X by linarith
  have fin: "is_finite P"
  proof -
    have "P \<le> 4000000000000 * 2 ^ 64" using P4 hi by simp
    also have "\<dots> < (2::rat) ^ 1024" by simp
    finally show ?thesis using P0 by (simp add: is_finite_def)
  qed
  have at: "to_atomic (js_sub X (js_mul X FEE_PERCENTAGE)) = Inr \<lfloor>P\<rfloor>"
    using fin
    by (simp add: to_atomic_def js_sub_def js_mul_def FEE_PERCENTAGE_value
        c_def [symmetric] t_def [symmetric] f_def [symmetric] A_def [symmetric]
        P_def [symmetric] Let_def)
  have fl: "of_int \<lfloor>P\<rfloor> \<le> P" "P < of_int \<lfloor>P\<rfloor> + 1" by linarith+
  have u: "P - X * 995000000000 \<le> X * 1000000000000 / 2251799813685248"
    using p1 a1 d1 t4 X by linarith
  have l: "X * 995000000000 - P \<le> X * 1000000000000 / 2251799813685248"
    using p2 a2 d2 t3 t2' X by linarith
  have "\<bar>of_int \<lfloor>P\<rfloor> - X * 995000000000\<bar> < 1 + X * 1000000000000 / 2251799813685248"
    using u l fl by linarith
  then have "\<bar>of_int \<lfloor>P\<rfloor> - X * (199 / 200) * 10 ^ 12\<bar> < 1 + X * 10 ^ 12 / 2 ^ 51"
    by simp
  with at show ?thesis by blast
qed

lemma fee_bound:
  assumes lo: "1 / 10 ^ 12 \<le> X" and hi: "X \<le> 2 ^ 64"
  shows "\<bar>js_mul X FEE_PERCENTAGE - X / 200\<bar> \<le> X / 2 ^ 59"
proof -
  define c :: rat where "c = 5764607523034235 / 1152921504606846976"
  define t where "t = X * c"
  define f where "f = to_double t"
  have "(0::rat) < 1 / 10 ^ 12" by simp
  with lo have X: "0 < X" by linarith
  have lo': "1 / 1000000000000 \<le> X" using lo by simp
  have tn: "(2::rat) powi (- 1022) \<le> 1 / 1000000000000000" using tiny by simp
  have c1: "1 / 201 \<le> c" and c2: "c \<le> 1 / 199"
    and c3: "c - 1 / 200 \<le> 1 / 1152921504606846976" and c4: "0 \<le> c - 1 / 200"
    by (simp_all add: c_def)
  have t1: "X * (1 / 201) \<le> t" unfolding t_def using c1 X by (intro mult_left_mono) simp_all
  have t2: "t \<le> X * (1 / 199)" unfolding t_def using c2 X by (intro mult_left_mono) simp_all
  have "X * (c - 1 / 200) \<le> X * (1 / 1152921504606846976)"
    using c3 X by (intro mult_left_mono) simp_all
  then have t3: "t - X / 200 \<le> X / 1152921504606846976" by (simp add: t_def algebra_simps)
  have "0 \<le> X * (c - 1 / 200)" using c4 X by simp
  then have t4: "X / 200 \<le> t" by (simp add: t_def algebra_simps)
  have t1': "X / 201 \<le> t" using t1 by simp
  have t2': "t \<le> X / 199" using t2 by simp
  have tpos: "\<bar>t\<bar> = t" using t1' X by simp
  have "2 powi (- 1022) \<le> \<bar>t\<bar>" using tn t1' lo' unfolding tpos by linarith
  from to_double_err [OF this] have "\<bar>f - t\<bar> \<le> t / 2 ^ 53" by (simp only: f_def tpos)
  then have e1: "\<bar>f - t\<bar> \<le> t / 9007199254740992" by simp
  have f1: "f \<le> t + t / 9007199254740992" using abs_le_D1 [OF e1] by linarith
  have f2: "t - t / 9007199254740992 \<le> f" using abs_le_D2 [OF e1] by linarith
  have "\<bar>f - X / 200\<bar> \<le> X / 576460752303423488"
    using f1 f2 t3 t4 t2' X by linarith
  moreover have "js_mul X FEE_PERCENTAGE = f"
    by (simp add: js_mul_def FEE_PERCENTAGE_value c_def [symmetric] t_def [symmetric] f_def)
  ultimately show ?thesis by simp
qed


section \<open>Properties of the deposit monitor\<close>

lemma to_double_0: "to_double 0 = 0"
  by (simp add: to_double_def)




lemma js_div_0: "js_div (to_double 0) y = 0"
  by (simp add: js_div_def to_double_0)

text \<open>
  C10.  When the session of a deposit check is missing or not ready, the check opens no
  wallet and makes no other wallet call, reports no deposit and a balance of zero, and
  leaves the sessions, the trades and the fees as they are; so does
  \<^verbatim>\<open>checkTradeDeposit\<close> on a trade of such a session.
\<close>

theorem C10_no_ready_session_no_wallet_call:
  assumes "sessions w sid = None \<or> (\<exists>s. sessions w sid = Some s \<and> status s \<noteq> Ready)"
  shows "checkWalletDeposits W sid x w = (Inr no_deposit, w)
     \<and> (\<forall>tid t. trades w tid = Some t \<and> multisig_session_id t = Some sid \<and> sid \<noteq> [] \<longrightarrow>
          checkTradeDeposit W tid w =
            (\<lparr>success = True, has_deposit = False, is_unlocked = False, balance_xmr = 0\<rparr>, w))"
proof -
  have c: "checkWalletDeposits W sid x w = (Inr no_deposit, w)" for x
    using assms
    by (auto simp add: checkWalletDeposits_def performWalletCheck_def getSession_def
        and_then_def ret_def)
  show ?thesis
    using c
    by (auto simp add: checkTradeDeposit_def getTradeById_def and_then_def ret_def
        no_deposit_def js_div_0)
qed





text \<open>With no write by another request, the function is \<open>checkTradeDeposit\<close>.\<close>

lemma and_then_meanwhile_nothing: "and_then (meanwhile (\<lambda>T. T)) f = f ()"
  by (rule ext) (simp add: and_then_def meanwhile_def)

lemma checkTradeDeposit_alone:
  "checkTradeDeposit_amid W (\<lambda>T. T) tid w = checkTradeDeposit W tid w"
  unfolding checkTradeDeposit_amid_def checkTradeDeposit_def and_then_meanwhile_nothing
  by (rule refl)




theorem C10_witness:
  "sessions (world_of fresh_session example_trade) ''s1'' = Some fresh_session
   \<and> status fresh_session \<noteq> Ready
   \<and> checkWalletDeposits funded_wallet ''s1'' 2 (world_of fresh_session example_trade)
       = (Inr no_deposit, world_of fresh_session example_trade)
   \<and> checkTradeDeposit funded_wallet ''t1'' (world_of fresh_session example_trade)
       = (\<lparr>success = True, has_deposit = False, is_unlocked = False, balance_xmr = 0\<rparr>,
          world_of fresh_session example_trade)"
proof -
  let ?w = "world_of fresh_session example_trade"
  have h: "sessions ?w ''s1'' = Some fresh_session \<and> status fresh_session \<noteq> Ready"
    by (simp add: world_of_def fresh_session_def created_session_def)
  then have "sessions ?w ''s1'' = None \<or> (\<exists>s. sessions ?w ''s1'' = Some s \<and> status s \<noteq> Ready)"
    by blast
  from C10_no_ready_session_no_wallet_call [OF this, of funded_wallet 2] h
  show ?thesis by (simp add: world_of_def example_trade_def)
qed

section \<open>Properties of the multisig session coordinator\<close>

lemmas multisig_defs = respond_def getSession_strict_def prepare_route_def prepare_check_def
  store_prepared_def
  allPrepared_def make_route_def make_check_def auto_make_def all_made_def
  exchange_route_def exchange_check_def auto_exchange_def advance_round_def
  fix_restore_height_def allExchanged_def totalRounds_def service_hexesToExchange_def
  auto_hexesToExchange_def retry_service_exchange_def retry_advance_def
  retry_hexesToExchange_def

lemma fix_restore_height_frame:
  assumes "fix_restore_height W sid w = (res, w')"
  shows "res = Inr () \<and> sessions w' = sessions w \<and> trades w' = trades w
     \<and> platform_fees w' = platform_fees w
     \<and> (\<forall>hs. ExchangeMultisigKeys hs \<in> set (wallet_log w') \<longrightarrow>
            ExchangeMultisigKeys hs \<in> set (wallet_log w))"
  using assms
  by (auto simp add: fix_restore_height_def getSession_strict_def prog_defs
      split: if_splits option.splits sum.splits)

lemma auto_exchange_frame:
  assumes "sessions w sid = Some s" "auto_exchange W sid u w = (res, w')"
  shows "res = Inr () \<and> trades w' = trades w \<and> platform_fees w' = platform_fees w
     \<and> (\<exists>s'. sessions w' sid = Some s' \<and> status s' = status s \<and> threshold s' = threshold s
           \<and> total_participants s' = total_participants s
           \<and> exchange_round s' = exchange_round s)"
  using assms
  by (auto simp add: auto_exchange_def prog_defs
      split: if_splits option.splits sum.splits)

lemma advance_round_effect:
  assumes "sessions w sid = Some fin" "allExchanged fin" "advance_round W sid fin w = (res, w')"
  shows "res = Inr () \<and> sessions w' sid = Some (after_round fin)"
proof (cases "totalRounds fin \<le> exchange_round fin + 1")
  case True
  obtain r1 w1 where u: "updateSession sid (\<lambda>s. s\<lparr>status := Ready, exchange_round := exchange_round fin + 1\<rparr>) w = (r1, w1)"
    by force
  with assms(1) have 1: "r1 = Inr ()" "sessions w1 sid = Some (fin\<lparr>status := Ready, exchange_round := exchange_round fin + 1\<rparr>)"
    by (auto simp add: updateSession_def)
  obtain r2 w2 where f: "fix_restore_height W sid w1 = (r2, w2)" by force
  from fix_restore_height_frame [OF f] have 2: "r2 = Inr ()" "sessions w2 = sessions w1" by simp_all
  from assms(3) True u 1 f 2 have "res = Inr () \<and> w' = w2"
    by (simp add: advance_round_def Let_def and_then_def)
  with 1 2 True assms(2) show ?thesis by (simp add: after_round_def)
next
  case False
  with assms show ?thesis
    by (auto simp add: advance_round_def Let_def updateSession_def after_round_def)
qed

lemma getSession_strict_Some:
  "sessions w sid = Some s \<Longrightarrow> getSession_strict sid w = (Inr s, w)"
  by (simp add: getSession_strict_def getSession_def and_then_def ret_def)

lemma exchange_check_effect:
  assumes "sessions w sid = Some s" and "exchange_check W sid p h w = (res, w')"
  shows "\<exists>fin a. res = Inr (Success a)
      \<and> currentRound a = exchange_round fin \<and> totalRounds_sent a = totalRounds fin
      \<and> allExchanged_sent a = allExchanged fin
      \<and> status fin = status s \<and> threshold fin = threshold s
      \<and> total_participants fin = total_participants s \<and> exchange_round fin = exchange_round s
      \<and> sessions w' sid = Some (after_round fin)"
proof -
  let ?auto = "truthy (user_a_exchange_hexes s) \<and> truthy (user_b_exchange_hexes s)
           \<and> \<not> truthy (service_exchange_hexes s) \<and> p \<noteq> ''service''"
  note g1 = getSession_strict_Some [OF assms(1)]
  obtain r1 w1 where a: "(if ?auto then auto_exchange W sid s else ret ()) w = (r1, w1)" by force
  have "r1 = Inr () \<and> (\<exists>s'. sessions w1 sid = Some s' \<and> status s' = status s \<and> threshold s' = threshold s
           \<and> total_participants s' = total_participants s
           \<and> exchange_round s' = exchange_round s)"
  proof (cases ?auto)
    case True
    with a have "auto_exchange W sid s w = (r1, w1)" by simp
    from auto_exchange_frame [OF assms(1) this] show ?thesis by simp
  next
    case False
    with a have "r1 = Inr ()" "w1 = w" by (simp_all add: ret_def)
    with assms(1) show ?thesis by simp
  qed
  then obtain fin where fin: "r1 = Inr ()" "sessions w1 sid = Some fin" "status fin = status s"
    "threshold fin = threshold s" "total_participants fin = total_participants s"
    "exchange_round fin = exchange_round s" by blast
  note g2 = getSession_strict_Some [OF fin(2)]
  obtain r2 w2 where b: "(if allExchanged fin then advance_round W sid fin else ret ()) w1 = (r2, w2)"
    by force
  have 2: "r2 = Inr () \<and> sessions w2 sid = Some (after_round fin)"
  proof (cases "allExchanged fin")
    case True
    with b have "advance_round W sid fin w1 = (r2, w2)" by simp
    from advance_round_effect [OF fin(2) True this] show ?thesis .
  next
    case False
    with b have "r2 = Inr ()" "w2 = w1" by (simp_all add: ret_def)
    with fin(2) False show ?thesis by (simp add: after_round_def)
  qed
  define ans where "ans = \<lparr>exchangeHex = (if p = ''service'' then h else None),
        currentRound = exchange_round fin,
        totalRounds_sent = totalRounds fin,
        allExchanged_sent = allExchanged fin,
        isComplete = (status fin = Ready),
        multisigAddress = multisig_address fin\<rparr>"
  have a': "(if ?auto then auto_exchange W sid s else ret ()) w = (Inr (), w1)"
    using a fin(1) by simp
  have b': "(if allExchanged fin then advance_round W sid fin else ret ()) w1 = (Inr (), w2)"
    using b 2 by simp
  have "exchange_check W sid p h w = (Inr (Success ans), w2)"
    unfolding exchange_check_def ans_def
    apply (simp only: and_then_def g1 a' g2 b' prod.case sum.case)
    apply (simp add: ret_def)
    done
  with assms(2) have res: "res = Inr (Success ans)" "w' = w2" by simp_all
  have "currentRound ans = exchange_round fin \<and> totalRounds_sent ans = totalRounds fin
      \<and> allExchanged_sent ans = allExchanged fin" by (simp add: ans_def)
  with res fin 2 show ?thesis by blast
qed


lemma exchange_route_reaches_check:
  assumes "sessions w sid = Some s" and "status s = Exchanging"
    and "exchange_route W sid p f w = (Success a, w')"
  shows "\<exists>w0 s0 h. exchange_check W sid p h w0 = (Inr (Success a), w')
           \<and> sessions w0 sid = Some s0 \<and> status s0 = Exchanging
           \<and> threshold s0 = threshold s \<and> total_participants s0 = total_participants s
           \<and> exchange_round s0 = exchange_round s"
  using assms
  apply (simp add: exchange_route_def respond_def prog_defs
      split: if_splits jsfield.splits option.splits sum.splits prod.splits)
  apply (auto split: if_splits jsfield.splits option.splits sum.splits prod.splits)
  done

lemma exchange_route_effect:
  assumes "sessions w sid = Some s" and "status s = Exchanging"
    and "exchange_route W sid p f w = (Success a, w')"
  shows "\<exists>fin. currentRound a = exchange_round s \<and> totalRounds_sent a = totalRounds s
      \<and> allExchanged_sent a = allExchanged fin
      \<and> status fin = Exchanging \<and> threshold fin = threshold s
      \<and> total_participants fin = total_participants s \<and> exchange_round fin = exchange_round s
      \<and> sessions w' sid = Some (after_round fin)"
proof -
  from exchange_route_reaches_check [OF assms] obtain w0 s0 h where
    c: "exchange_check W sid p h w0 = (Inr (Success a), w')" and
    s0: "sessions w0 sid = Some s0" "status s0 = Exchanging" "threshold s0 = threshold s"
      "total_participants s0 = total_participants s" "exchange_round s0 = exchange_round s"
    by blast
  from exchange_check_effect [OF s0(1) c] obtain fin where
    "currentRound a = exchange_round fin" "totalRounds_sent a = totalRounds fin"
    "allExchanged_sent a = allExchanged fin" "status fin = status s0"
    "threshold fin = threshold s0" "total_participants fin = total_participants s0"
    "exchange_round fin = exchange_round s0" "sessions w' sid = Some (after_round fin)"
    by auto
  with s0 show ?thesis by (auto simp add: totalRounds_def)
qed

text \<open>
  The exchange route, on a session in the exchange phase: when the three slots of the
  round are filled and a round remains, the round counter goes up by one, the three
  values move to the previous-round fields and the three slots are emptied, in one
  update; when no round remains, the session becomes ready.
\<close>

lemma exchange_route_round:
  assumes "sessions w sid = Some s" and "status s = Exchanging"
    and "exchange_route W sid p f w = (Success a, w')"
  shows "\<exists>fin s'. sessions w' sid = Some s'
      \<and> currentRound a = exchange_round s \<and> totalRounds_sent a = totalRounds s
      \<and> (allExchanged_sent a \<and> exchange_round s + 1 < totalRounds s \<longrightarrow>
            status s' = Exchanging \<and> exchange_round s' = exchange_round s + 1
            \<and> service_exchange_hexes_prev s' = service_exchange_hexes fin
            \<and> user_a_exchange_hexes_prev s' = user_a_exchange_hexes fin
            \<and> user_b_exchange_hexes_prev s' = user_b_exchange_hexes fin
            \<and> allExchanged fin
            \<and> service_exchange_hexes s' = None \<and> user_a_exchange_hexes s' = None
            \<and> user_b_exchange_hexes s' = None)
      \<and> (allExchanged_sent a \<and> totalRounds s \<le> exchange_round s + 1 \<longrightarrow>
            status s' = Ready \<and> exchange_round s' = exchange_round s + 1)
      \<and> (\<not> allExchanged_sent a \<longrightarrow>
            status s' = Exchanging \<and> exchange_round s' = exchange_round s)"
proof -
  from exchange_route_effect [OF assms] obtain fin where
    f: "currentRound a = exchange_round s" "totalRounds_sent a = totalRounds s"
      "allExchanged_sent a = allExchanged fin" "status fin = Exchanging"
      "threshold fin = threshold s" "total_participants fin = total_participants s"
      "exchange_round fin = exchange_round s" "sessions w' sid = Some (after_round fin)"
    by blast
  have t: "totalRounds fin = totalRounds s" using f(5,6) by (simp add: totalRounds_def)
  show ?thesis
    apply (rule exI [of _ fin])
    apply (rule exI [of _ "after_round fin"])
    using f t by (simp add: after_round_def)
qed

lemma totalRounds_2_of_3:
  "totalRounds (created_session path addr hex h) = 2"
  by (simp add: totalRounds_def created_session_def)

text \<open>
  C1.  The claim: in the exchange phase, when the three current-round slots are filled
  the round counter advances while a round remains, and on completing the final round
  the session becomes ready and its multisig address is populated.  The lemma
  \<open>exchange_route_round\<close> gives the advance and the status; the address is not always
  there.  On the run \<open>stale_round_run\<close> the retry operation moves the session to round 1
  with the round-0 values still in the three slots; the next submission of user A then
  completes the final round, and the session is ready with no multisig address.
\<close>

theorem C1_ready_without_address:
  "map_option (\<lambda>s. (status s, exchange_round s, multisig_address s))
     (sessions stale_round_run ''s1'') = Some (Ready, 2, None)"
  by (simp add: stale_round_run_def prog_defs multisig_defs example_defs Let_def)

text \<open>
  C2.  The claim: every path that advances a non-final round copies the round's three
  values to the previous-round fields and clears the three slots together with the
  increment, the retry operation included.  The exchange route does
  (\<open>exchange_route_round\<close>); the retry operation only increments the counter.  On a
  round-0 session where both users have exchanged and the service has not, the retry
  leaves round 1 with the three slots still filled and the previous-round fields empty.
\<close>

theorem C2_retry_advances_without_clearing:
  "map_option (\<lambda>s. (status s, exchange_round s,
       [service_exchange_hexes s, user_a_exchange_hexes s, user_b_exchange_hexes s],
       [service_exchange_hexes_prev s, user_a_exchange_hexes_prev s,
        user_b_exchange_hexes_prev s]))
     (sessions (snd (retry_service_exchange funded_wallet ''s1''
                       (world_of stuck_session example_trade))) ''s1'')
   = Some (Exchanging, 1, [Some ''4bb0'', Some ''ex_a0'', Some ''ex_b0''], [None, None, None])"
  by (simp add: prog_defs multisig_defs example_defs Let_def)

lemma retry_advance_keeps_slots:
  assumes "sessions w sid = Some u" and "exchange_round u + 1 < totalRounds u"
    and "retry_advance W sid u w = (r, w')"
  shows "sessions w' sid = Some (u\<lparr>exchange_round := exchange_round u + 1\<rparr>)"
  using assms by (auto simp add: retry_advance_def Let_def updateSession_def)

text \<open>
  C3.  The claim: the service's \<^verbatim>\<open>exchangeMultisigKeys\<close> gets the two users' made hexes
  in round 0 and their previous-round exchange values in later rounds, on the direct
  path and on the automatic one.  The direct path does; the automatic exchange passes
  the users' current-round values.  In round 1, with previous-round values
  \<open>ex_a0\<close>, \<open>ex_b0\<close> and user A's round-1 value \<open>ex_a1\<close> stored, user B's submission of
  \<open>ex_b1\<close> makes the service call \<^verbatim>\<open>exchangeMultisigKeys\<close> with \<open>ex_a1\<close>, \<open>ex_b1\<close>.
\<close>

theorem C3_auto_exchange_uses_current_round:
  "wallet_log (snd (exchange_route funded_wallet ''s1'' ''user_b'' (Text ''ex_b1'')
      (world_of round1_session example_trade)))
   = [OpenWalletFull (Some ''wallets/service_s1''),
      ExchangeMultisigKeys [Some ''ex_a1'', Some ''ex_b1''],
      GetAddress, Save, Close,
      OpenWalletFull (Some ''wallets/service_s1''), GetSeed, Close,
      Unlink ''wallets/service_s1'', Unlink ''wallets/service_s1.keys'',
      CreateWalletFull (Some ''wallets/service_s1'') ''4aa0'' (Some 1000),
      GetHeight, Close]"
  by (simp add: prog_defs multisig_defs example_defs Let_def)

lemma service_path_uses_previous_round:
  "wallet_log (snd (exchange_route funded_wallet ''s1'' ''service'' Undefined
      (world_of round1_session example_trade)))
   = [OpenWalletFull (Some ''wallets/service_s1''),
      ExchangeMultisigKeys [Some ''ex_a0'', Some ''ex_b0''],
      GetAddress, Save, Close]"
  by (simp add: prog_defs multisig_defs example_defs Let_def)

lemma hexesToExchange_later_rounds:
  assumes "exchange_round s \<noteq> 0"
  shows "service_hexesToExchange s = [user_a_exchange_hexes_prev s, user_b_exchange_hexes_prev s]"
    and "auto_hexesToExchange s = [user_a_exchange_hexes s, user_b_exchange_hexes s]"
    and "retry_hexesToExchange s = [user_a_exchange_hexes s, user_b_exchange_hexes s]"
  using assms
  by (simp_all add: service_hexesToExchange_def auto_hexesToExchange_def retry_hexesToExchange_def)










section \<open>Properties of the trade lifecycle\<close>

lemmas trade_defs = respond_def initiate_release_def finalize_release_def
  recordPlatformFee_def build_release_tx_def cosign_and_complete_def
  require_crypto_randomBytes_def

lemmas trade_example_defs = paid_trade_def large_trade_def refusing_wallet_def

lemma build_release_tx_success:
  assumes "build_release_tx W s t address w = (Inr (Success a), w')"
  shows "\<exists>n. to_atomic (js_sub (xmr_amount t) (js_mul (xmr_amount t) FEE_PERCENTAGE)) = Inr n
     \<and> wallet_log w' = wallet_log w @
          [OpenWalletFull (service_wallet_path s), Sync, CreateTx address n,
           ExportMultisigHex, Close]
     \<and> platformFee a = js_mul (xmr_amount t) FEE_PERCENTAGE
     \<and> recipientReceives a = js_sub (xmr_amount t) (js_mul (xmr_amount t) FEE_PERCENTAGE)
     \<and> tradeAmount a = xmr_amount t"
  using assms
  by (auto simp add: build_release_tx_def prog_defs Let_def split: option.splits sum.splits)

lemma build_release_tx_frame:
  assumes "build_release_tx W s t address w = (r, w')"
  shows "trades w' = trades w \<and> sessions w' = sessions w \<and> platform_fees w' = platform_fees w
     \<and> (\<forall>m. r \<noteq> Inr (Failure 400 m))
     \<and> GetUnlockedBalance \<notin> set (drop (length (wallet_log w)) (wallet_log w'))
     \<and> GetBalance \<notin> set (drop (length (wallet_log w)) (wallet_log w'))"
  using assms
  by (auto simp add: build_release_tx_def prog_defs Let_def split: option.splits sum.splits)

lemma initiate_release_guards:
  assumes "trades w tid = Some t"
    and "initiate_release W tid uid addr w = (Success a, w')"
  shows "\<exists>address sid s.
       addr = Text address \<and> address \<noteq> [] \<and> seller_id t = uid \<and> trade_status t = Payment_sent
     \<and> multisig_session_id t = Some sid \<and> sessions w sid = Some s \<and> status s = Ready
     \<and> build_release_tx W s t address w = (Inr (Success a), w')"
  using assms
  by (cases "multisig_session_id t")
     (auto simp add: initiate_release_def respond_def getTradeById_def getSession_def
        and_then_def ret_def
      split: if_splits jsfield.splits option.splits sum.splits prod.splits)

text \<open>What a successful initiate-release has done, for any wallet.\<close>

lemma initiate_release_success:
  assumes "trades w tid = Some t"
    and "initiate_release W tid uid addr w = (Success a, w')"
  shows "\<exists>address (s :: session) n. addr = Text address
     \<and> to_atomic (js_sub (xmr_amount t) (js_mul (xmr_amount t) FEE_PERCENTAGE)) = Inr n
     \<and> wallet_log w' = wallet_log w @
          [OpenWalletFull (service_wallet_path s), Sync, CreateTx address n,
           ExportMultisigHex, Close]
     \<and> platformFee a = js_mul (xmr_amount t) FEE_PERCENTAGE
     \<and> recipientReceives a = js_sub (xmr_amount t) (js_mul (xmr_amount t) FEE_PERCENTAGE)"
proof -
  from initiate_release_guards [OF assms] obtain address sid and s :: session where
    g: "addr = Text address \<and> address \<noteq> [] \<and> seller_id t = uid \<and> trade_status t = Payment_sent
     \<and> multisig_session_id t = Some sid \<and> sessions w sid = Some s \<and> status s = Ready
     \<and> build_release_tx W s t address w = (Inr (Success a), w')"
    by (elim exE)
  then have b: "build_release_tx W s t address w = (Inr (Success a), w')"
    and ad: "addr = Text address" by simp_all
  from build_release_tx_success [OF b] obtain n where
    n: "to_atomic (js_sub (xmr_amount t) (js_mul (xmr_amount t) FEE_PERCENTAGE)) = Inr n
     \<and> wallet_log w' = wallet_log w @
          [OpenWalletFull (service_wallet_path s), Sync, CreateTx address n,
           ExportMultisigHex, Close]
     \<and> platformFee a = js_mul (xmr_amount t) FEE_PERCENTAGE
     \<and> recipientReceives a = js_sub (xmr_amount t) (js_mul (xmr_amount t) FEE_PERCENTAGE)
     \<and> tradeAmount a = xmr_amount t"
    by (elim exE)
  from ad n show ?thesis
    by (intro exI [of _ address] exI [of _ s] exI [of _ n]) simp
qed

lemma initiate_release_guarded:
  assumes "trades w tid = Some t" and "seller_id t = uid" and "trade_status t = Payment_sent"
    and "address \<noteq> []" and "multisig_session_id t = Some sid" and "sid \<noteq> []"
    and "sessions w sid = Some s" and "status s = Ready"
  shows "initiate_release W tid uid (Text address) w
           = respond (build_release_tx W s t address) w"
  using assms
  by (simp add: initiate_release_def respond_def getTradeById_def getSession_def
      and_then_def ret_def)

text \<open>
  Once the guards on the caller, the trade's status, the address and the session have
  passed, initiate-release does not answer 400, does not ask for a balance and writes
  to no table.
\<close>

lemma initiate_release_no_balance_check:
  assumes "trades w tid = Some t" and "seller_id t = uid" and "trade_status t = Payment_sent"
    and "address \<noteq> []" and "multisig_session_id t = Some sid" and "sid \<noteq> []"
    and "sessions w sid = Some s" and "status s = Ready"
    and "initiate_release W tid uid (Text address) w = (r, w')"
  shows "(\<forall>m. r \<noteq> Failure 400 m) \<and> trades w' = trades w
     \<and> GetUnlockedBalance \<notin> set (drop (length (wallet_log w)) (wallet_log w'))
     \<and> GetBalance \<notin> set (drop (length (wallet_log w)) (wallet_log w'))"
proof -
  obtain rb wb where b: "build_release_tx W s t address w = (rb, wb)" by force
  have "initiate_release W tid uid (Text address) w = respond (build_release_tx W s t address) w"
    using assms(1-8) by (rule initiate_release_guarded)
  with assms(9) b have e: "(r, w') = (case rb of Inl m \<Rightarrow> (Failure 500 m, wb) | Inr x \<Rightarrow> (x, wb))"
    by (simp add: respond_def)
  note f = build_release_tx_frame [OF b]
  show ?thesis
  proof (cases rb)
    case (Inl m)
    with e have "r = Failure 500 m" "w' = wb" by simp_all
    with f show ?thesis by simp
  next
    case (Inr x)
    with e have "r = x" "w' = wb" by simp_all
    with f Inr show ?thesis by simp
  qed
qed

text \<open>
  The statements of finalize-release after its guards never reach \<^verbatim>\<open>recordPlatformFee\<close>:
  for any wallet they throw, and leave the table of fees and the sessions as they were.
\<close>

lemma cosign_and_complete_throws:
  assumes "cosign_and_complete W e tid t s hex w = (r, w')"
  shows "(\<exists>m. r = Inl m) \<and> platform_fees w' = platform_fees w \<and> sessions w' = sessions w
     \<and> (\<forall>t0. trades w tid = Some t0 \<longrightarrow>
            trades w' = (trades w)(tid \<mapsto> t0\<lparr>trade_status := Releasing\<rparr>))"
  using assms
  by (auto simp add: cosign_and_complete_def require_crypto_randomBytes_def prog_defs Let_def
      split: option.splits sum.splits)

lemma finalize_release_guarded:
  assumes "trades w tid = Some t" and "seller_id t = uid" and "h \<noteq> []"
    and "multisig_session_id t = Some sid" and "sessions w sid = Some s"
  shows "finalize_release W e tid uid (Text h) w = respond (cosign_and_complete W e tid t s h) w"
  using assms
  by (simp add: finalize_release_def respond_def getTradeById_def getSession_def
      and_then_def ret_def)

lemma finalize_release_refused:
  assumes "trades w tid = Some t"
    and "\<not> (seller_id t = uid \<and> (\<exists>h. hex = Text h \<and> h \<noteq> [])
           \<and> (\<exists>sid s. multisig_session_id t = Some sid \<and> sessions w sid = Some s))"
  shows "\<exists>c m. finalize_release W e tid uid hex w = (Failure c m, w)"
  using assms
  by (cases "multisig_session_id t"; cases hex)
     (auto simp add: finalize_release_def respond_def getTradeById_def getSession_def
        and_then_def ret_def split: option.splits)

text \<open>
  Finalize-release, for any wallet and any request: it never answers 200, never adds a
  fee, and never sets the trade to completed.
\<close>

lemma finalize_release_never_completes:
  assumes "trades w tid = Some t" and "finalize_release W e tid uid hex w = (r, w')"
  shows "(\<forall>a. r \<noteq> Success a) \<and> platform_fees w' = platform_fees w
     \<and> (trades w' = trades w \<or> trades w' = (trades w)(tid \<mapsto> t\<lparr>trade_status := Releasing\<rparr>))"
proof (cases "seller_id t = uid \<and> (\<exists>h. hex = Text h \<and> h \<noteq> [])
    \<and> (\<exists>sid s. multisig_session_id t = Some sid \<and> sessions w sid = Some s)")
  case False
  from finalize_release_refused [OF assms(1) False, of W e] assms(2)
  show ?thesis by auto
next
  case True
  then obtain h sid and s :: session where
    g: "seller_id t = uid" "hex = Text h" "h \<noteq> []" "multisig_session_id t = Some sid"
       "sessions w sid = Some s" by blast
  obtain rb wb where b: "cosign_and_complete W e tid t s h w = (rb, wb)" by force
  from cosign_and_complete_throws [OF b] assms(1) obtain m where
    m: "rb = Inl m" "platform_fees wb = platform_fees w"
       "trades wb = (trades w)(tid \<mapsto> t\<lparr>trade_status := Releasing\<rparr>)" by auto
  from finalize_release_guarded [OF assms(1) g(1,3,4,5), of W e] assms(2) g(2) b m(1)
  have "r = Failure 500 m" "w' = wb" by (simp_all add: respond_def)
  with m show ?thesis by simp
qed

text \<open>
  C5.  The claim: one PlatformFee record per completed trade, computed from the trade's
  amount, however often finalize-release is called.  Finalize-release signs and submits
  the transaction and then throws, at \<^verbatim>\<open>require("crypto")\<close>, before it records the
  fee and before it sets the trade to completed: the seller's finalize-release on a
  paid trade of 2 XMR broadcasts the release, answers 500, records no fee and leaves
  the trade in the status releasing.
\<close>

theorem C5_finalize_release_records_no_fee:
  "finalize_release funded_wallet ''require is not defined'' ''t1'' ''sally'' (Text ''signed1'')
       (world_of ready_session paid_trade)
     = (Failure 500 ''require is not defined'',
        \<lparr>sessions = [''s1'' \<mapsto> ready_session],
         trades = [''t1'' \<mapsto> paid_trade\<lparr>trade_status := Releasing\<rparr>],
         platform_fees = [],
         wallet_log = [OpenWalletFull (Some ''wallets/service_s1''), SignMultisigTxHex ''signed1'',
                       SubmitMultisigTxHex ''4aa0'', Close]\<rparr>)"
  by (simp add: prog_defs trade_defs example_defs trade_example_defs Let_def)

text \<open>
  C6.  The claim: initiate-release asks for a transaction of \<open>X \<times> 0.995\<close> and the fee
  recorded is \<open>X \<times> 0.005\<close>; for \<open>X = 2.0\<close>, 1.99 and 0.01.  The route computes
  \<^verbatim>\<open>X - X * 0.005\<close> in binary64 arithmetic and floors the product with \<^verbatim>\<open>1e12\<close>.  For
  a trade of 129 XMR it asks for 128354999999999 atomic units, one less than
  \<open>129 \<times> 0.995 \<times> 10\<^sup>1\<^sup>2 = 128355000000000\<close>.
\<close>

theorem C6_payout_of_129_is_one_unit_short:
  "wallet_log (snd (initiate_release funded_wallet ''t1'' ''sally'' (Text ''4dest'')
          (world_of ready_session large_trade)))
     = [OpenWalletFull (Some ''wallets/service_s1''), Sync, CreateTx ''4dest'' 128354999999999,
        ExportMultisigHex, Close]
   \<and> xmr_amount large_trade = 129
   \<and> \<lfloor>(129 :: rat) * (1 - 5 / 1000) * 10 ^ 12\<rfloor> = 128355000000000"
  by (simp add: prog_defs trade_defs example_defs trade_example_defs Let_def
      atomic_payout_of_129)

text \<open>
  C6 as amended.  For a trade of amount \<open>X\<close>: a successful initiate-release has asked
  the wallet for a transaction of \<open>n\<close> atomic units, where \<open>n\<close> is the floor of
  \<^verbatim>\<open>(X - X * 0.005) * 1e12\<close> in binary64 arithmetic, and reports the fee
  \<^verbatim>\<open>X * 0.005\<close> and the payout \<^verbatim>\<open>X - X * 0.005\<close>.  For \<open>X\<close> between one atomic unit
  and \<open>2\<^sup>6\<^sup>4\<close> XMR, \<open>n\<close> differs from \<open>X \<times> 0.995 \<times> 10\<^sup>1\<^sup>2\<close> by less than
  \<open>1 + X \<times> 10\<^sup>1\<^sup>2 / 2\<^sup>5\<^sup>1\<close> and the fee from \<open>X \<times> 0.005\<close> by at most \<open>X / 2\<^sup>5\<^sup>9\<close>.  For
  \<open>X = 2\<close> the transaction is for 1990000000000 atomic units (1.99 XMR) and the fee is
  the number \<^verbatim>\<open>0.01\<close>.
\<close>

theorem C6_payout_and_fee:
  assumes "trades w tid = Some t"
  shows "(\<forall>W uid addr a w'. initiate_release W tid uid addr w = (Success a, w') \<longrightarrow>
            (\<exists>address (s :: session) n. addr = Text address
               \<and> to_atomic (js_sub (xmr_amount t) (js_mul (xmr_amount t) FEE_PERCENTAGE)) = Inr n
               \<and> wallet_log w' = wallet_log w @
                    [OpenWalletFull (service_wallet_path s), Sync, CreateTx address n,
                     ExportMultisigHex, Close]
               \<and> platformFee a = js_mul (xmr_amount t) FEE_PERCENTAGE
               \<and> recipientReceives a
                    = js_sub (xmr_amount t) (js_mul (xmr_amount t) FEE_PERCENTAGE)))
     \<and> (1 / 10 ^ 12 \<le> xmr_amount t \<and> xmr_amount t \<le> 2 ^ 64 \<longrightarrow>
            (\<exists>n. to_atomic (js_sub (xmr_amount t) (js_mul (xmr_amount t) FEE_PERCENTAGE)) = Inr n
               \<and> \<bar>of_int n - xmr_amount t * (199 / 200) * 10 ^ 12\<bar>
                    < 1 + xmr_amount t * 10 ^ 12 / 2 ^ 51)
            \<and> \<bar>js_mul (xmr_amount t) FEE_PERCENTAGE - xmr_amount t / 200\<bar>
                 \<le> xmr_amount t / 2 ^ 59)
     \<and> (xmr_amount t = 2 \<longrightarrow>
            to_atomic (js_sub (xmr_amount t) (js_mul (xmr_amount t) FEE_PERCENTAGE))
              = Inr 1990000000000
            \<and> js_mul (xmr_amount t) FEE_PERCENTAGE = to_double (1 / 100))"
proof -
  have 1: "\<forall>W uid addr a w'. initiate_release W tid uid addr w = (Success a, w') \<longrightarrow>
            (\<exists>address (s :: session) n. addr = Text address
               \<and> to_atomic (js_sub (xmr_amount t) (js_mul (xmr_amount t) FEE_PERCENTAGE)) = Inr n
               \<and> wallet_log w' = wallet_log w @
                    [OpenWalletFull (service_wallet_path s), Sync, CreateTx address n,
                     ExportMultisigHex, Close]
               \<and> platformFee a = js_mul (xmr_amount t) FEE_PERCENTAGE
               \<and> recipientReceives a
                    = js_sub (xmr_amount t) (js_mul (xmr_amount t) FEE_PERCENTAGE))"
    using initiate_release_success [OF assms] by blast
  have 3: "1 / 10 ^ 12 \<le> xmr_amount t \<and> xmr_amount t \<le> 2 ^ 64 \<longrightarrow>
            (\<exists>n. to_atomic (js_sub (xmr_amount t) (js_mul (xmr_amount t) FEE_PERCENTAGE)) = Inr n
               \<and> \<bar>of_int n - xmr_amount t * (199 / 200) * 10 ^ 12\<bar>
                    < 1 + xmr_amount t * 10 ^ 12 / 2 ^ 51)
            \<and> \<bar>js_mul (xmr_amount t) FEE_PERCENTAGE - xmr_amount t / 200\<bar>
                 \<le> xmr_amount t / 2 ^ 59"
    using payout_bound [of "xmr_amount t"] fee_bound [of "xmr_amount t"] by blast
  have 4: "xmr_amount t = 2 \<longrightarrow>
            to_atomic (js_sub (xmr_amount t) (js_mul (xmr_amount t) FEE_PERCENTAGE))
              = Inr 1990000000000
            \<and> js_mul (xmr_amount t) FEE_PERCENTAGE = to_double (1 / 100)"
    by (simp add: fee_of_2 payout_of_2 atomic_payout_of_2)
  from 1 3 4 show ?thesis by blast
qed

theorem C6_witness:
  "trades (world_of ready_session paid_trade) ''t1'' = Some paid_trade
   \<and> xmr_amount paid_trade = 2
   \<and> wallet_log (snd (initiate_release funded_wallet ''t1'' ''sally'' (Text ''4dest'')
          (world_of ready_session paid_trade)))
       = [OpenWalletFull (Some ''wallets/service_s1''), Sync, CreateTx ''4dest'' 1990000000000,
          ExportMultisigHex, Close]
   \<and> map_reply platformFee
        (fst (initiate_release funded_wallet ''t1'' ''sally'' (Text ''4dest'')
          (world_of ready_session paid_trade)))
       = Success (to_double (1 / 100))"
proof -
  let ?w = "world_of ready_session paid_trade"
  let ?i = "initiate_release funded_wallet ''t1'' ''sally'' (Text ''4dest'') ?w"
  have h: "trades ?w ''t1'' = Some paid_trade" by (simp add: world_of_def)
  have x: "xmr_amount paid_trade = 2" by (simp add: paid_trade_def example_trade_def)
  have l: "wallet_log ?w = []" by (simp add: world_of_def)
  have si: "\<exists>a. ?i = (Success a, snd ?i)"
    by (simp add: prog_defs trade_defs example_defs trade_example_defs Let_def
        fee_of_2 payout_of_2 atomic_payout_of_2 prod_eq_iff)
  then obtain a where a: "?i = (Success a, snd ?i)" by (elim exE)
  note c = C6_payout_and_fee [OF h]
  from c x have n: "to_atomic (js_sub (xmr_amount paid_trade)
      (js_mul (xmr_amount paid_trade) FEE_PERCENTAGE)) = Inr 1990000000000"
    and fe: "js_mul (xmr_amount paid_trade) FEE_PERCENTAGE = to_double (1 / 100)" by blast+
  from c a obtain address n' and s :: session where
    i: "Text ''4dest'' = Text address"
       "to_atomic (js_sub (xmr_amount paid_trade)
          (js_mul (xmr_amount paid_trade) FEE_PERCENTAGE)) = Inr n'"
       "wallet_log (snd ?i) = wallet_log ?w @
          [OpenWalletFull (service_wallet_path s), Sync, CreateTx address n',
           ExportMultisigHex, Close]"
       "platformFee a = js_mul (xmr_amount paid_trade) FEE_PERCENTAGE"
    by blast
  from i(1) have ad: "address = ''4dest''" by simp
  from i(2) n have n': "n' = 1990000000000" by simp
  have p: "wallet_log (snd ?i) ! 0 = OpenWalletFull (Some ''wallets/service_s1'')"
    by (simp add: prog_defs trade_defs example_defs trade_example_defs Let_def
        fee_of_2 payout_of_2 atomic_payout_of_2)
  with i(3) l have "service_wallet_path s = Some ''wallets/service_s1''" by simp
  with i(3) l ad n' have lg: "wallet_log (snd ?i)
       = [OpenWalletFull (Some ''wallets/service_s1''), Sync, CreateTx ''4dest'' 1990000000000,
          ExportMultisigHex, Close]" by simp
  from a have fa: "fst ?i = Success a" by (metis fst_conv)
  have fee: "map_reply platformFee (fst ?i) = Success (to_double (1 / 100))"
    using i(4) fe by (simp add: fa)
  from h x lg fee show ?thesis by simp
qed

text \<open>
  C8.  The claim: with an unlocked balance below the trade's amount, initiate-release
  answers 400 and leaves the trade as it is.  The trade is left as it is, but
  initiate-release never reads a balance (\<open>initiate_release_no_balance_check\<close>).  With
  an empty wallet it answers 500 when the wallet refuses to build the transaction, and
  200 with an unsigned transaction when it does not refuse.
\<close>

theorem C8_initiate_release_without_funds:
  "fst (initiate_release refusing_wallet ''t1'' ''sally'' (Text ''4dest'')
          (world_of ready_session paid_trade)) = Failure 500 ''not enough money''
   \<and> fst (initiate_release empty_wallet ''t1'' ''sally'' (Text ''4dest'')
          (world_of ready_session paid_trade))
       = Success \<lparr>unsignedTxHex = ''4aa0'', recipientAddress_sent = ''4dest'', tradeAmount = 2,
                  platformFee = to_double (1 / 100), recipientReceives = to_double (199 / 100)\<rparr>
   \<and> wallet_log (snd (initiate_release empty_wallet ''t1'' ''sally'' (Text ''4dest'')
          (world_of ready_session paid_trade)))
       = [OpenWalletFull (Some ''wallets/service_s1''), Sync, CreateTx ''4dest'' 1990000000000,
          ExportMultisigHex, Close]"
  by (simp add: prog_defs trade_defs example_defs trade_example_defs Let_def
      fee_of_2 payout_of_2 atomic_payout_of_2)

section \<open>Properties of the lock of checkWalletDeposits\<close>

lemmas lock_defs = no_invocation_def start_check_def in_round_trip_def

text \<open>
  With two callers the lock does its work: the second caller cannot go on before the
  first caller's \<^verbatim>\<open>performWalletCheck\<close> has returned, and when it goes on it starts a
  check of its own, while the first is no longer in its round trip.
\<close>

lemma second_caller_waits:
  "run [Call 1 ''s1'', Call 2 ''s1'', Resume 2] no_invocation = None"
  by (simp add: lock_defs)

lemma second_caller_checks_again:
  "map_option (\<lambda>st. (in_round_trip st ''s1'' 1, in_round_trip st ''s1'' 2, walletLocks st ''s1''))
     (run [Call 1 ''s1'', Call 2 ''s1'', Settle 1, Resume 1, Resume 2] no_invocation)
   = Some (False, True, Some 2)"
  by (simp add: lock_defs)

text \<open>
  C9.  The claim: two concurrent invocations for the same session never overlap in
  their wallet round trip.  A caller that finds the lock taken waits for the promise in
  \<^verbatim>\<open>walletLocks\<close> and then starts \<^verbatim>\<open>performWalletCheck\<close> without looking at
  \<^verbatim>\<open>walletLocks\<close> again.  With three callers, the second and the third wait for the
  first caller's promise; once it is settled the three go on in the order in which they
  started to wait, and the second and the third are in their wallet round trip for the
  same session at the same time.
\<close>

theorem C9_two_waiting_callers_overlap:
  "map_option (\<lambda>st. (in_round_trip st ''s1'' 2, in_round_trip st ''s1'' 3))
     (run [Call 1 ''s1'', Call 2 ''s1'', Call 3 ''s1'', Settle 1, Resume 1, Resume 2, Resume 3]
        no_invocation)
   = Some (True, True)"
  by (simp add: lock_defs)

end
